theory Spec2Isabelle
  imports Complex_Main "HOL-Library.Sublist"
begin

text \<open>
  A shallow embedding of the server side of the dashboard application:
  \<^item> \<open>app/lib/actions.ts\<close>: the schemas \<open>customerSchema\<close> and \<open>InvoiceSchema\<close>, the six
    mutation handlers (\<open>createCustomer\<close>, \<open>updateCustomer\<close>, \<open>deleteCustomer\<close>,
    \<open>createInvoice\<close>, \<open>updateInvoice\<close>, \<open>deleteInvoice\<close>) and \<open>authenticate\<close>;
  \<^item> \<open>app/verify-data/route.ts\<close>: the handler \<open>GET\<close>.
  The capabilities the handlers call (the database, the sign-in provider, the clock, the
  name pattern \<open>nameRegex\<close>) are arguments of the model; what the handlers do with them
  (statements executed, cache invalidations, redirects, rows logged) is returned as a list
  of effects beside the way the handler completes.
\<close>

section \<open>JavaScript values used by the server actions\<close>

text \<open>
  Strings are \<open>string\<close>; every \<open>char\<close> stands for one UTF-16 code unit below 256, so
  the model covers form input in the Latin-1 range.

  A JavaScript number is an IEEE 754 double. A finite double is carried by its exact
  rational value; \<open>toDouble\<close> rounds an exact rational to the nearest double (ties to
  even, subnormals below \<open>2^-1022\<close>, overflow to the infinities at \<open>2^1024\<close>). The two
  zeros are not told apart: no comparison of the program does.
\<close>

datatype jsnum = NaN | PosInf | NegInf | Fin rat

datatype jsval = Undefined | Null | Str string | File

fun bits :: "nat \<Rightarrow> nat" where
  "bits n = (if n = 0 then 0 else Suc (bits (n div 2)))"

declare bits.simps [simp del]

definition pow2 :: "int \<Rightarrow> rat" where
  "pow2 e = (if 0 \<le> e then 2 ^ nat e else 1 / 2 ^ nat (- e))"

definition ilog2 :: "rat \<Rightarrow> int" where
  \<comment> \<open>for \<open>0 < a\<close>: the exponent \<open>e\<close> with \<open>2^e \<le> a < 2^(e+1)\<close>\<close>
  "ilog2 a = (if 1 \<le> a then int (bits (nat \<lfloor>a\<rfloor>)) - 1
              else - int (bits (nat (\<lceil>1 / a\<rceil> - 1))))"

definition roundTiesToEven :: "rat \<Rightarrow> int" where
  "roundTiesToEven x =
     (let f = \<lfloor>x\<rfloor>; d = x - of_int f
      in if d < 1 / 2 then f else if 1 / 2 < d then f + 1
         else if even f then f else f + 1)"

definition toDouble :: "rat \<Rightarrow> jsnum" where
  "toDouble x =
     (if x = 0 then Fin 0
      else let a = \<bar>x\<bar>;
               e = max (ilog2 a) (- 1022);
               u = pow2 (e - 52);
               r = of_int (roundTiesToEven (a / u)) * u
           in if pow2 1024 \<le> r then (if 0 < x then PosInf else NegInf)
              else Fin (if 0 < x then r else - r))"

definition js_sign :: "jsnum \<Rightarrow> int" where
  "js_sign a =
     (case a of NaN \<Rightarrow> 0 | PosInf \<Rightarrow> 1 | NegInf \<Rightarrow> - 1
              | Fin x \<Rightarrow> if x < 0 then - 1 else if x = 0 then 0 else 1)"

definition js_times :: "jsnum \<Rightarrow> jsnum \<Rightarrow> jsnum" where
  \<comment> \<open>the operator \<open>*\<close> on numbers\<close>
  "js_times a b =
     (case (a, b) of
        (Fin x, Fin y) \<Rightarrow> toDouble (x * y)
      | _ \<Rightarrow> if a = NaN \<or> b = NaN \<or> js_sign a * js_sign b = 0 then NaN
             else if 0 < js_sign a * js_sign b then PosInf else NegInf)"

definition js_le :: "jsnum \<Rightarrow> jsnum \<Rightarrow> bool" where
  \<comment> \<open>the operator \<open><=\<close> on numbers: false as soon as one side is NaN\<close>
  "js_le a b =
     (case (a, b) of
        (NaN, _) \<Rightarrow> False
      | (_, NaN) \<Rightarrow> False
      | (NegInf, _) \<Rightarrow> True
      | (_, PosInf) \<Rightarrow> True
      | (PosInf, _) \<Rightarrow> False
      | (_, NegInf) \<Rightarrow> False
      | (Fin x, Fin y) \<Rightarrow> x \<le> y)"

subsection \<open>The coercion \<open>Number(value)\<close>\<close>

definition StrWhiteSpaceChar :: "char \<Rightarrow> bool" where
  \<comment> \<open>TAB, LF, VT, FF, CR, SP, NBSP: the white space and line terminators below 256;
      the same set is the class \<open>\s\<close> of regular expressions\<close>
  "StrWhiteSpaceChar c \<longleftrightarrow> c \<in> set [CHR 0x09, CHR 0x0A, CHR 0x0B, CHR 0x0C, CHR 0x0D, CHR 0x20, CHR 0xA0]"

definition trim :: "string \<Rightarrow> string" where
  "trim s = rev (dropWhile StrWhiteSpaceChar (rev (dropWhile StrWhiteSpaceChar s)))"

definition digitValue :: "char \<Rightarrow> nat" where
  "digitValue c =
     (let k = (of_char c :: nat)
      in if 48 \<le> k \<and> k \<le> 57 then k - 48
         else if 97 \<le> k \<and> k \<le> 102 then k - 87
         else if 65 \<le> k \<and> k \<le> 70 then k - 55
         else 36)"

definition isDigit :: "nat \<Rightarrow> char \<Rightarrow> bool" where
  "isDigit base c \<longleftrightarrow> digitValue c < base"

definition digitsValue :: "nat \<Rightarrow> string \<Rightarrow> nat" where
  "digitsValue base ds = foldl (\<lambda>acc c. acc * base + digitValue c) 0 ds"

definition pow10 :: "int \<Rightarrow> rat" where
  "pow10 e = (if 0 \<le> e then 10 ^ nat e else 1 / 10 ^ nat (- e))"

definition ExponentPart :: "string \<Rightarrow> int option" where
  \<comment> \<open>empty, or \<open>e\<close>/\<open>E\<close>, an optional sign and at least one decimal digit\<close>
  "ExponentPart s =
     (case s of
        [] \<Rightarrow> Some 0
      | c # r \<Rightarrow>
          if c = CHR ''e'' \<or> c = CHR ''E'' then
            (let neg = (r \<noteq> [] \<and> hd r = CHR ''-'');
                 ds = (if r \<noteq> [] \<and> (hd r = CHR ''+'' \<or> hd r = CHR ''-'') then tl r else r)
             in if ds \<noteq> [] \<and> list_all (isDigit 10) ds
                then Some (if neg then - int (digitsValue 10 ds) else int (digitsValue 10 ds))
                else None)
          else None)"

definition StrUnsignedDecimalLiteral :: "string \<Rightarrow> jsnum option" where
  \<comment> \<open>\<open>Infinity\<close>, \<open>digits . digits? exponent?\<close>, \<open>. digits exponent?\<close> or \<open>digits exponent?\<close>\<close>
  "StrUnsignedDecimalLiteral s =
     (if s = ''Infinity'' then Some PosInf
      else let ip = takeWhile (isDigit 10) s;
               r1 = dropWhile (isDigit 10) s;
               dot = (r1 \<noteq> [] \<and> hd r1 = CHR ''.'');
               fp = (if dot then takeWhile (isDigit 10) (tl r1) else []);
               r2 = (if dot then dropWhile (isDigit 10) (tl r1) else r1)
           in if ip = [] \<and> fp = [] then None
              else (case ExponentPart r2 of
                      None \<Rightarrow> None
                    | Some e \<Rightarrow>
                        Some (toDouble ((of_nat (digitsValue 10 ip)
                                          + of_nat (digitsValue 10 fp) / 10 ^ length fp) * pow10 e))))"

definition js_negate :: "jsnum \<Rightarrow> jsnum" where
  "js_negate a = (case a of NaN \<Rightarrow> NaN | PosInf \<Rightarrow> NegInf | NegInf \<Rightarrow> PosInf | Fin x \<Rightarrow> Fin (- x))"

definition StrDecimalLiteral :: "string \<Rightarrow> jsnum option" where
  "StrDecimalLiteral s =
     (case s of
        [] \<Rightarrow> None
      | c # r \<Rightarrow>
          if c = CHR ''+'' then StrUnsignedDecimalLiteral r
          else if c = CHR ''-'' then map_option js_negate (StrUnsignedDecimalLiteral r)
          else StrUnsignedDecimalLiteral s)"

definition NonDecimalIntegerLiteral :: "string \<Rightarrow> jsnum option" where
  \<comment> \<open>\<open>0x\<close>, \<open>0o\<close>, \<open>0b\<close> (either case) and at least one digit of that base; no sign\<close>
  "NonDecimalIntegerLiteral s =
     (case s of
        z # x # ds \<Rightarrow>
          (let base = (if x = CHR ''x'' \<or> x = CHR ''X'' then 16
                       else if x = CHR ''o'' \<or> x = CHR ''O'' then 8
                       else if x = CHR ''b'' \<or> x = CHR ''B'' then 2 else 0)
           in if z = CHR ''0'' \<and> 0 < base \<and> ds \<noteq> [] \<and> list_all (isDigit base) ds
              then Some (toDouble (of_nat (digitsValue base ds)))
              else None)
      | _ \<Rightarrow> None)"

definition StringToNumber :: "string \<Rightarrow> jsnum" where
  "StringToNumber s =
     (let t = trim s
      in if t = [] then Fin 0
         else (case NonDecimalIntegerLiteral t of
                 Some n \<Rightarrow> n
               | None \<Rightarrow> (case StrDecimalLiteral t of Some n \<Rightarrow> n | None \<Rightarrow> NaN)))"

definition Number :: "jsval \<Rightarrow> jsnum" where
  \<comment> \<open>a \<open>File\<close> converts through the string \<open>[object File]\<close>, which is no numeric literal\<close>
  "Number v =
     (case v of Undefined \<Rightarrow> NaN | Null \<Rightarrow> Fin 0 | Str s \<Rightarrow> StringToNumber s | File \<Rightarrow> NaN)"

section \<open>Form data\<close>

text \<open>
  A \<open>FormData\<close> is the ordered list of the entries of a submission. \<open>formData.get(k)\<close>
  is the value of the first entry named \<open>k\<close>, a string or a file, and \<open>null\<close> when the
  form has no entry of that name; it is never \<open>undefined\<close>.
\<close>

datatype FormDataEntryValue = EntryString string | EntryFile

type_synonym FormData = "(string \<times> FormDataEntryValue) list"

definition FormData_get :: "FormData \<Rightarrow> string \<Rightarrow> jsval" where
  "FormData_get formData k =
     (case map_of formData k of
        None \<Rightarrow> Null
      | Some (EntryString s) \<Rightarrow> Str s
      | Some EntryFile \<Rightarrow> File)"

section \<open>Schema validators\<close>

text \<open>
  The schemas of \<open>actions.ts\<close> are built from combinators of the validation library
  (zod, version 3). Each combinator is modelled by what its parser does on a value:
  \<^item> a type mismatch aborts the field with one \<open>invalid_type\<close> issue, whose message is
    \<open>required_error\<close> when the value is \<open>undefined\<close>, \<open>invalid_type_error\<close> otherwise, and
    the library's default (\<open>Required\<close>, or \<open>Expected T, received U\<close>) when the schema gives
    none;
  \<^item> a failed check (\<open>min\<close>, \<open>gt\<close>) adds its issue and the parse goes on, so a later
    \<open>refine\<close> still runs on the value;
  \<^item> \<open>optional()\<close> accepts \<open>undefined\<close> and hands every other value, \<open>null\<close> included, to
    the inner schema;
  \<^item> an object schema parses every key and collects the issues of all of them, in the
    order of its keys.
  An issue is the pair of the field it belongs to and its message.
\<close>

type_synonym issue = "string \<times> string"

definition getParsedType :: "jsval \<Rightarrow> string" where
  "getParsedType v =
     (case v of Undefined \<Rightarrow> ''undefined'' | Null \<Rightarrow> ''null'' | Str s \<Rightarrow> ''string''
              | File \<Rightarrow> ''object'')"

definition invalid_type_message ::
    "string option \<Rightarrow> string option \<Rightarrow> string \<Rightarrow> jsval \<Rightarrow> string" where
  \<comment> \<open>\<open>required_error\<close>, \<open>invalid_type_error\<close>, the expected type, the value received\<close>
  "invalid_type_message required_error invalid_type_error expected v =
     (if v = Undefined
      then (case required_error of Some m \<Rightarrow> m | None \<Rightarrow> ''Required'')
      else (case invalid_type_error of
              Some m \<Rightarrow> m
            | None \<Rightarrow> ''Expected '' @ expected @ '', received '' @ getParsedType v))"

definition z_string :: "string option \<Rightarrow> string option \<Rightarrow> jsval \<Rightarrow> string list + string" where
  \<comment> \<open>\<open>z.string({required_error, invalid_type_error})\<close>\<close>
  "z_string required_error invalid_type_error v =
     (case v of
        Str s \<Rightarrow> Inr s
      | _ \<Rightarrow> Inl [invalid_type_message required_error invalid_type_error ''string'' v])"

definition z_optional :: "(jsval \<Rightarrow> string list + 'a) \<Rightarrow> jsval \<Rightarrow> string list + 'a option" where
  \<comment> \<open>\<open>schema.optional()\<close>\<close>
  "z_optional schema v =
     (if v = Undefined then Inr None
      else (case schema v of Inl ms \<Rightarrow> Inl ms | Inr x \<Rightarrow> Inr (Some x)))"

definition issues_of :: "string \<Rightarrow> string list + 'a \<Rightarrow> issue list" where
  "issues_of path r = (case r of Inl ms \<Rightarrow> map (Pair path) ms | Inr x \<Rightarrow> [])"

definition push_error :: "(string \<times> string list) list \<Rightarrow> issue \<Rightarrow> (string \<times> string list) list" where
  "push_error acc i =
     (case map_of acc (fst i) of
        None \<Rightarrow> acc @ [(fst i, [snd i])]
      | Some ms \<Rightarrow> map (\<lambda>(k, v). if k = fst i then (k, v @ [snd i]) else (k, v)) acc)"

definition fieldErrors :: "issue list \<Rightarrow> (string \<times> string list) list" where
  \<comment> \<open>\<open>error.flatten().fieldErrors\<close>: the messages of the issues, grouped by field\<close>
  "fieldErrors issues = foldl push_error [] issues"

subsection \<open>Customers\<close>

definition is_alpha :: "char \<Rightarrow> bool" where
  \<comment> \<open>\<open>[a-z]\<close> under the flag \<open>i\<close>\<close>
  "is_alpha c \<longleftrightarrow>
     (let k = (of_char c :: nat) in (97 \<le> k \<and> k \<le> 122) \<or> (65 \<le> k \<and> k \<le> 90))"

definition is_line_terminator :: "char \<Rightarrow> bool" where
  \<comment> \<open>what \<open>.\<close> does not match\<close>
  "is_line_terminator c \<longleftrightarrow> c = CHR 0x0A \<or> c = CHR 0x0D"

definition lower_code :: "char \<Rightarrow> nat" where
  \<comment> \<open>the code of a character, letters \<open>A\<close> to \<open>Z\<close> taken to lower case (the flag \<open>i\<close>)\<close>
  "lower_code c = (let k = (of_char c :: nat) in if 65 \<le> k \<and> k \<le> 90 then k + 32 else k)"

fun dot_letters :: "string \<Rightarrow> bool" where
  \<comment> \<open>the lookahead \<open>(?=.*\.[a-z]{2,})\<close>\<close>
  "dot_letters [] = False"
| "dot_letters (c # cs) =
     ((c = CHR ''.'' \<and> (case cs of a # b # r \<Rightarrow> is_alpha a \<and> is_alpha b | _ \<Rightarrow> False))
      \<or> (\<not> is_line_terminator c \<and> dot_letters cs))"

definition url_body :: "string \<Rightarrow> bool" where
  \<comment> \<open>\<open>(?=.*\.[a-z]{2,})[^\s$.?#].[^\s]*$\<close>, on what follows \<open>://\<close>\<close>
  "url_body r =
     (dot_letters r \<and>
      (case r of
         a # b # cs \<Rightarrow>
           \<not> StrWhiteSpaceChar a \<and> a \<notin> set ''$.?#'' \<and> \<not> is_line_terminator b
           \<and> list_all (\<lambda>c. \<not> StrWhiteSpaceChar c) cs
       | _ \<Rightarrow> False))"

definition url_regex_test :: "string \<Rightarrow> bool" where
  \<comment> \<open>\<open>/^(https?):\/\/(?=.*\.[a-z]{2,})[^\s$.?#].[^\s]*$/i.test(value)\<close>\<close>
  "url_regex_test s =
     (if map lower_code (take 7 s) = map of_char ''http://'' then url_body (drop 7 s)
      else if map lower_code (take 8 s) = map of_char ''https://'' then url_body (drop 8 s)
      else False)"

record Customer =
  name :: string
  email :: "string option"
  url :: "string option"

definition customerSchema_name :: "(string \<Rightarrow> bool) \<Rightarrow> jsval \<Rightarrow> string list + string" where
  "customerSchema_name nameRegex v =
     (case z_string (Some ''Name is a required field'') None v of
        Inl ms \<Rightarrow> Inl ms
      | Inr s \<Rightarrow>
          (let ms = (if length s < 1 then [''Name must contain at least 1 character.''] else [])
                    @ (if nameRegex s then [] else [''Name can only have valid characters.''])
           in if ms = [] then Inr s else Inl ms))"

definition customerSchema_email :: "jsval \<Rightarrow> string list + string option" where
  "customerSchema_email = z_optional (z_string None (Some ''Invalid Email''))"

definition customerSchema_url :: "jsval \<Rightarrow> string list + string option" where
  "customerSchema_url =
     z_optional (\<lambda>v. case z_string None None v of
                        Inl ms \<Rightarrow> Inl ms
                      | Inr s \<Rightarrow> if url_regex_test s then Inr s
                                 else Inl [''Please enter a valid URL''])"

definition customerSchema_safeParse ::
    "(string \<Rightarrow> bool) \<Rightarrow> jsval \<Rightarrow> jsval \<Rightarrow> jsval \<Rightarrow> issue list + Customer" where
  \<comment> \<open>\<open>customerSchema.safeParse({name, email, url})\<close>; \<open>nameRegex\<close> stands for
      \<open>nameRegex.test\<close>, whose pattern is declared in another module, taken as a function
      of the string tested (a pattern without the flags \<open>g\<close> and \<open>y\<close>)\<close>
  "customerSchema_safeParse nameRegex n e u =
     (case (customerSchema_name nameRegex n, customerSchema_email e, customerSchema_url u) of
        (Inr n', Inr e', Inr u') \<Rightarrow> Inr \<lparr>name = n', email = e', url = u'\<rparr>
      | (rn, re, ru) \<Rightarrow> Inl (issues_of ''name'' rn @ issues_of ''email'' re @ issues_of ''url'' ru))"

subsection \<open>Invoices\<close>

record Invoice =
  customerId :: string
  amount :: jsnum
  status :: string

definition InvoiceSchema_customerId :: "jsval \<Rightarrow> string list + string" where
  "InvoiceSchema_customerId = z_string None (Some ''Please select a customer.'')"

definition InvoiceSchema_amount :: "jsval \<Rightarrow> string list + jsnum" where
  \<comment> \<open>\<open>z.coerce.number().gt(0, {message})\<close>: the value is replaced by \<open>Number(value)\<close>;
      NaN is a type mismatch; the check fails when \<open>data <= 0\<close>\<close>
  "InvoiceSchema_amount v =
     (let data = Number v
      in if data = NaN then Inl [''Expected number, received nan'']
         else if js_le data (Fin 0) then Inl [''Please enter an amount greater than $0.'']
         else Inr data)"

definition quote :: "string \<Rightarrow> string" where
  "quote s = [CHR 0x27] @ s @ [CHR 0x27]"

fun joinValues :: "string list \<Rightarrow> string" where
  "joinValues [] = []"
| "joinValues [v] = quote v"
| "joinValues (v # vs) = quote v @ '' | '' @ joinValues vs"

definition z_enum :: "string list \<Rightarrow> string option \<Rightarrow> jsval \<Rightarrow> string list + string" where
  \<comment> \<open>\<open>z.enum(values, {invalid_type_error})\<close>\<close>
  "z_enum values invalid_type_error v =
     (case v of
        Str s \<Rightarrow>
          if s \<in> set values then Inr s
          else Inl [''Invalid enum value. Expected '' @ joinValues values
                    @ '', received '' @ quote s]
      | _ \<Rightarrow> Inl [invalid_type_message None invalid_type_error (joinValues values) v])"

definition InvoiceSchema_status :: "jsval \<Rightarrow> string list + string" where
  "InvoiceSchema_status =
     z_enum [''pending'', ''paid''] (Some ''Please select an invoice status.'')"

definition CreateInvoice_safeParse :: "jsval \<Rightarrow> jsval \<Rightarrow> jsval \<Rightarrow> issue list + Invoice" where
  \<comment> \<open>\<open>InvoiceSchema.omit({id: true, date: true})\<close>: the keys left are
      \<open>customerId\<close>, \<open>amount\<close> and \<open>status\<close>\<close>
  "CreateInvoice_safeParse c a s =
     (case (InvoiceSchema_customerId c, InvoiceSchema_amount a, InvoiceSchema_status s) of
        (Inr c', Inr a', Inr s') \<Rightarrow> Inr \<lparr>customerId = c', amount = a', status = s'\<rparr>
      | (rc, ra, rs) \<Rightarrow>
          Inl (issues_of ''customerId'' rc @ issues_of ''amount'' ra @ issues_of ''status'' rs))"

definition UpdateInvoice_safeParse :: "jsval \<Rightarrow> jsval \<Rightarrow> jsval \<Rightarrow> issue list + Invoice" where
  "UpdateInvoice_safeParse = CreateInvoice_safeParse"

section \<open>Effects\<close>

text \<open>
  A handler is a function from its arguments and from the capabilities it calls to the
  way it completes and the list of the effects it performed, in order.
  \<^item> \<open>sql\<close> and \<open>client.sql\<close> receive a tagged template: the literal pieces of the
    statement (white space normalised) and the values bound between them. The capability
    is a function from the statement to the rows it resolves with (\<open>Inr\<close>) or the error
    it rejects with (\<open>Inl\<close>).
  \<^item> \<open>redirect(path)\<close> ends the handler by throwing the framework's \<open>NEXT_REDIRECT\<close> signal.
  \<^item> \<open>new Date()\<close> reads the server clock; the clock is an argument of the handler.
  The argument \<open>id\<close> of the source is written \<open>id'\<close>.
\<close>

datatype sqlval = PString string | PNumber jsnum | PUndefined

datatype query = Query "string list" "sqlval list"

datatype 'row effect = Sql query | RevalidatePath string | Redirect string | ConsoleLog 'row

datatype ('a, 'e) completion = Return 'a | Throw 'e

datatype next_signal = NEXT_REDIRECT string

record State =
  errors :: "(string \<times> string list) list option"
  message :: "string option"

type_synonym CustomerState = State

type_synonym ('err, 'row) sql = "query \<Rightarrow> 'err + 'row list"

type_synonym 'row action = "(State option, next_signal) completion \<times> 'row effect list"

definition opt_param :: "string option \<Rightarrow> sqlval" where
  "opt_param v = (case v of None \<Rightarrow> PUndefined | Some s \<Rightarrow> PString s)"

subsection \<open>The server clock\<close>

text \<open>
  A \<open>Date\<close> is read through its getters: \<open>getUTCFullYear()\<close>, \<open>getUTCMonth()\<close>, ... give
  the date and time in UTC, and \<open>getFullYear()\<close>, \<open>getMonth()\<close>, \<open>getDate()\<close> give the
  calendar date in the time zone of the server (\<open>LocalFullYear\<close>, \<open>LocalMonth\<close>,
  \<open>LocalDate\<close>). Months count from 0.
\<close>

record Date =
  UTCFullYear :: int
  UTCMonth :: nat
  UTCDate :: nat
  UTCHours :: nat
  UTCMinutes :: nat
  UTCSeconds :: nat
  UTCMilliseconds :: nat
  LocalFullYear :: int
  LocalMonth :: nat
  LocalDate :: nat

fun decimal :: "nat \<Rightarrow> string" where
  "decimal n =
     (if n < 10 then [''0123456789'' ! n] else decimal (n div 10) @ [''0123456789'' ! (n mod 10)])"

declare decimal.simps [simp del]

definition padStart :: "nat \<Rightarrow> nat \<Rightarrow> string" where
  "padStart w n = replicate (w - length (decimal n)) CHR ''0'' @ decimal n"

definition toISOString :: "Date \<Rightarrow> string" where
  \<comment> \<open>\<open>YYYY-MM-DDTHH:mm:ss.sssZ\<close>; a year outside 0..9999 is written with a sign and six
      digits; \<open>UTCMonth\<close> counts from 0\<close>
  "toISOString d =
     (if 0 \<le> UTCFullYear d \<and> UTCFullYear d \<le> 9999 then padStart 4 (nat (UTCFullYear d))
      else (if UTCFullYear d < 0 then ''-'' else ''+'') @ padStart 6 (nat \<bar>UTCFullYear d\<bar>))
     @ ''-'' @ padStart 2 (UTCMonth d + 1) @ ''-'' @ padStart 2 (UTCDate d)
     @ ''T'' @ padStart 2 (UTCHours d) @ '':'' @ padStart 2 (UTCMinutes d)
     @ '':'' @ padStart 2 (UTCSeconds d) @ ''.'' @ padStart 3 (UTCMilliseconds d) @ ''Z''"

definition split_first :: "char \<Rightarrow> string \<Rightarrow> string" where
  \<comment> \<open>\<open>s.split(sep)[0]\<close>\<close>
  "split_first sep s = takeWhile (\<lambda>c. c \<noteq> sep) s"

section \<open>Mutation handlers\<close>

subsection \<open>Customers\<close>

definition createCustomer ::
    "(string \<Rightarrow> bool) \<Rightarrow> ('err, 'row) sql \<Rightarrow> CustomerState \<Rightarrow> FormData \<Rightarrow> 'row action" where
  "createCustomer nameRegex sql prevState formData =
     (case customerSchema_safeParse nameRegex (FormData_get formData ''name'')
             (FormData_get formData ''email'') (FormData_get formData ''url'') of
        Inl issues \<Rightarrow> (Return (Some \<lparr>errors = Some (fieldErrors issues), message = None\<rparr>), [])
      | Inr data \<Rightarrow>
          (let q = Query [''INSERT INTO customers (customer_id, name, url ) VALUES ('', '', '',
                          '', '', '')'']
                         [opt_param (email data), PString (name data), opt_param (url data)]
           in case sql q of
                Inl error \<Rightarrow>
                  (Return (Some \<lparr>errors = None,
                                  message = Some ''Database Error: Failed to Create Customer.''\<rparr>),
                   [Sql q])
              | Inr rows \<Rightarrow>
                  (Throw (NEXT_REDIRECT ''/dashboard/customers''),
                   [Sql q, RevalidatePath ''/dashboard/customers'',
                    Redirect ''/dashboard/customers''])))"

definition updateCustomer ::
    "(string \<Rightarrow> bool) \<Rightarrow> ('err, 'row) sql \<Rightarrow> string \<Rightarrow> CustomerState \<Rightarrow> FormData \<Rightarrow> 'row action" where
  "updateCustomer nameRegex sql id' prevState formData =
     (case customerSchema_safeParse nameRegex (FormData_get formData ''name'')
             (FormData_get formData ''email'') (FormData_get formData ''url'') of
        Inl issues \<Rightarrow>
          (Return (Some \<lparr>errors = Some (fieldErrors issues),
                          message = Some ''Missing Fields. Failed to Update Customer.''\<rparr>), [])
      | Inr data \<Rightarrow>
          (let q = Query [''UPDATE customers SET customer_id = '', '', name = '', '', url = '',
                          '' WHERE id = '', '''']
                         [opt_param (email data), PString (name data), opt_param (url data),
                          opt_param (email data)]
           in case sql q of
                Inl error \<Rightarrow>
                  (Return (Some \<lparr>errors = None,
                                  message = Some (''Database Error: Failed to update Customer ''
                                                  @ name data)\<rparr>),
                   [Sql q])
              | Inr rows \<Rightarrow>
                  (Throw (NEXT_REDIRECT ''/dashboard/customers''),
                   [Sql q, RevalidatePath ''/dashboard/customers'',
                    Redirect ''/dashboard/customers''])))"

definition deleteCustomer :: "('err, 'row) sql \<Rightarrow> string \<Rightarrow> 'row action" where
  "deleteCustomer sql id' =
     (let q = Query [''DELETE FROM customers WHERE email = '', ''''] [PString id']
      in case sql q of
           Inl error \<Rightarrow>
             (Return (Some \<lparr>errors = None, message = Some ''Database Error: Failed to delete''\<rparr>),
              [Sql q])
         | Inr rows \<Rightarrow> (Return None, [Sql q, RevalidatePath ''/dashboard/customers'']))"

subsection \<open>Invoices\<close>

definition createInvoice ::
    "('err, 'row) sql \<Rightarrow> Date \<Rightarrow> State \<Rightarrow> FormData \<Rightarrow> 'row action" where
  "createInvoice sql now prevState formData =
     (case CreateInvoice_safeParse (FormData_get formData ''customerId'')
             (FormData_get formData ''amount'') (FormData_get formData ''status'') of
        Inl issues \<Rightarrow>
          (Return (Some \<lparr>errors = Some (fieldErrors issues),
                          message = Some ''Missing Fields. Failed to Create Invoice.''\<rparr>), [])
      | Inr data \<Rightarrow>
          (let amountInCents = js_times (amount data) (Fin 100);
               date = split_first CHR ''T'' (toISOString now);
               q = Query [''INSERT INTO invoices (customer_id, amount, status, date) VALUES ('',
                          '', '', '', '', '', '', '')'']
                         [PString (customerId data), PNumber amountInCents,
                          PString (status data), PString date]
           in case sql q of
                Inl error \<Rightarrow>
                  (Return (Some \<lparr>errors = None,
                                  message = Some ''Database Error: Failed to Create Invoice.''\<rparr>),
                   [Sql q])
              | Inr rows \<Rightarrow>
                  (Throw (NEXT_REDIRECT ''/dashboard/invoices''),
                   [Sql q, RevalidatePath ''/dashboard/invoices'',
                    Redirect ''/dashboard/invoices''])))"

definition updateInvoice ::
    "('err, 'row) sql \<Rightarrow> string \<Rightarrow> State \<Rightarrow> FormData \<Rightarrow> 'row action" where
  "updateInvoice sql id' prevState formData =
     (case UpdateInvoice_safeParse (FormData_get formData ''customerId'')
             (FormData_get formData ''amount'') (FormData_get formData ''status'') of
        Inl issues \<Rightarrow>
          (Return (Some \<lparr>errors = Some (fieldErrors issues),
                          message = Some ''Missing Fields. Failed to Update Invoice.''\<rparr>), [])
      | Inr data \<Rightarrow>
          (let amountInCents = js_times (amount data) (Fin 100);
               q = Query [''UPDATE invoices SET customer_id = '', '', amount = '', '', status = '',
                          '' WHERE id = '', '''']
                         [PString (customerId data), PNumber amountInCents,
                          PString (status data), PString id']
           in case sql q of
                Inl error \<Rightarrow>
                  (Return (Some \<lparr>errors = None,
                                  message = Some (''Database Error: Failed to update '' @ id')\<rparr>),
                   [Sql q])
              | Inr rows \<Rightarrow>
                  (Throw (NEXT_REDIRECT ''/dashboard/invoices''),
                   [Sql q, RevalidatePath ''/dashboard/invoices'',
                    Redirect ''/dashboard/invoices''])))"

definition deleteInvoice :: "('err, 'row) sql \<Rightarrow> string \<Rightarrow> 'row action" where
  "deleteInvoice sql id' =
     (let q = Query [''DELETE FROM invoices WHERE id = '', ''''] [PString id']
      in case sql q of
           Inl error \<Rightarrow>
             (Return (Some \<lparr>errors = None, message = Some ''Database Error: Failed to delete''\<rparr>),
              [Sql q])
         | Inr rows \<Rightarrow> (Return None, [Sql q, RevalidatePath ''/dashboard/invoices'']))"

section \<open>Authentication\<close>

text \<open>
  What \<open>signIn\<close> can reject with: an \<open>AuthError\<close>, carrying its \<open>type\<close>, or any other
  value. \<open>signIn\<close> is a function from the provider name and the form data to \<open>None\<close>
  when it resolves and to the value thrown otherwise.
\<close>

datatype 'e thrown = AuthError string | Other 'e

definition authenticate ::
    "(string \<Rightarrow> FormData \<Rightarrow> 'e thrown option) \<Rightarrow> string option \<Rightarrow> FormData
      \<Rightarrow> (string option, 'e thrown) completion" where
  "authenticate signIn prevState formData =
     (case signIn ''credentials'' formData of
        None \<Rightarrow> Return None
      | Some error \<Rightarrow>
          (case error of
             AuthError type \<Rightarrow>
               if type = ''CredentialsSignin'' then Return (Some ''Invalid credentials.'')
               else Return (Some ''Something went wrong.'')
           | Other e \<Rightarrow> Throw error))"

section \<open>The diagnostic endpoint\<close>

text \<open>
  What \<open>client.sql\<close> can reject with: an \<open>Error\<close> instance, or a primitive value. An
  \<open>Error\<close> instance is its \<open>message\<close>, an own property that is not enumerable, and the list
  of its enumerable own properties in the order of their creation (with keys that are
  not array indices, primitive values and no \<open>toJSON\<close> method). \<open>JInt\<close> is a number with an
  integer value, of magnitude below \<open>10^21\<close>.

  \<open>Response.json(data, init)\<close> answers with the text \<open>JSON.stringify(data)\<close>, which holds
  of an object its enumerable own properties and leaves out a property whose value is
  \<open>undefined\<close>.
\<close>

datatype jsprim = JUndefined | JNull | JBool bool | JInt int | JString string

datatype rejection = ErrorObject string "(string \<times> jsprim) list" | Primitive jsprim

datatype json_data = JsonMessage string | JsonError rejection

definition hex4 :: "nat \<Rightarrow> string" where
  \<comment> \<open>four hexadecimal digits, for a code below 256\<close>
  "hex4 k = ''00'' @ [''0123456789abcdef'' ! (k div 16), ''0123456789abcdef'' ! (k mod 16)]"

definition QuoteJSONChar :: "char \<Rightarrow> string" where
  "QuoteJSONChar c =
     (if c = CHR 0x08 then [CHR 0x5C, CHR ''b'']
      else if c = CHR 0x09 then [CHR 0x5C, CHR ''t'']
      else if c = CHR 0x0A then [CHR 0x5C, CHR ''n'']
      else if c = CHR 0x0C then [CHR 0x5C, CHR ''f'']
      else if c = CHR 0x0D then [CHR 0x5C, CHR ''r'']
      else if c = CHR 0x22 then [CHR 0x5C, CHR 0x22]
      else if c = CHR 0x5C then [CHR 0x5C, CHR 0x5C]
      else if (of_char c :: nat) < 32 then [CHR 0x5C, CHR ''u''] @ hex4 (of_char c)
      else [c])"

definition QuoteJSONString :: "string \<Rightarrow> string" where
  "QuoteJSONString s = [CHR 0x22] @ concat (map QuoteJSONChar s) @ [CHR 0x22]"

definition SerializeJSONProperty :: "jsprim \<Rightarrow> string option" where
  \<comment> \<open>\<open>None\<close>: the value is \<open>undefined\<close> and the property is left out\<close>
  "SerializeJSONProperty v =
     (case v of
        JUndefined \<Rightarrow> None
      | JNull \<Rightarrow> Some ''null''
      | JBool b \<Rightarrow> Some (if b then ''true'' else ''false'')
      | JInt n \<Rightarrow> Some (if n < 0 then ''-'' @ decimal (nat (- n)) else decimal (nat n))
      | JString s \<Rightarrow> Some (QuoteJSONString s))"

fun commaSeparated :: "string list \<Rightarrow> string" where
  "commaSeparated [] = []"
| "commaSeparated [x] = x"
| "commaSeparated (x # xs) = x @ '','' @ commaSeparated xs"

definition SerializeJSONObject :: "(string \<times> string option) list \<Rightarrow> string" where
  \<comment> \<open>the properties of an object, each with the text of its value\<close>
  "SerializeJSONObject props =
     ''{'' @ commaSeparated
               (List.map_filter
                  (\<lambda>(k, v). map_option (\<lambda>t. QuoteJSONString k @ '':'' @ t) v) props)
     @ ''}''"

definition SerializeRejection :: "rejection \<Rightarrow> string option" where
  "SerializeRejection e =
     (case e of
        ErrorObject msg props \<Rightarrow>
          Some (SerializeJSONObject (map (\<lambda>(k, v). (k, SerializeJSONProperty v)) props))
      | Primitive v \<Rightarrow> SerializeJSONProperty v)"

definition JSON_stringify :: "json_data \<Rightarrow> string" where
  \<comment> \<open>\<open>JSON.stringify({message})\<close> and \<open>JSON.stringify({error})\<close>\<close>
  "JSON_stringify data =
     (case data of
        JsonMessage s \<Rightarrow> SerializeJSONObject [(''message'', Some (QuoteJSONString s))]
      | JsonError e \<Rightarrow> SerializeJSONObject [(''error'', SerializeRejection e)])"

record Response =
  body :: string
  httpStatus :: nat

definition Response_json :: "json_data \<Rightarrow> nat option \<Rightarrow> Response" where
  \<comment> \<open>\<open>Response.json(data, {status})\<close>; the status is 200 when none is given\<close>
  "Response_json data init =
     \<lparr>body = JSON_stringify data, httpStatus = (case init of None \<Rightarrow> 200 | Some s \<Rightarrow> s)\<rparr>"

definition GET_catch ::
    "(rejection, 'row) sql \<Rightarrow> rejection \<Rightarrow> 'row effect list
      \<Rightarrow> (Response, rejection) completion \<times> 'row effect list" where
  \<comment> \<open>the \<open>catch\<close> block, entered with the error caught and the effects so far\<close>
  "GET_catch client_sql error done =
     (case client_sql (Query [''ROLLBACK''] []) of
        Inl error' \<Rightarrow> (Throw error', done @ [Sql (Query [''ROLLBACK''] [])])
      | Inr rows \<Rightarrow>
          (Return (Response_json (JsonError error) (Some 500)),
           done @ [Sql (Query [''ROLLBACK''] [])]))"

definition GET ::
    "(rejection, 'row) sql \<Rightarrow> (Response, rejection) completion \<times> 'row effect list" where
  "GET client_sql =
     (case client_sql (Query [''BEGIN''] []) of
        Inl error \<Rightarrow> GET_catch client_sql error [Sql (Query [''BEGIN''] [])]
      | Inr r0 \<Rightarrow>
          (case client_sql (Query [''SELECT * FROM revenue''] []) of
             Inl error \<Rightarrow>
               GET_catch client_sql error
                 [Sql (Query [''BEGIN''] []), Sql (Query [''SELECT * FROM revenue''] [])]
           | Inr rows \<Rightarrow>
               (let done = [Sql (Query [''BEGIN''] []), Sql (Query [''SELECT * FROM revenue''] [])]
                           @ map ConsoleLog rows @ [Sql (Query [''COMMIT''] [])]
                in case client_sql (Query [''COMMIT''] []) of
                     Inl error \<Rightarrow> GET_catch client_sql error done
                   | Inr r1 \<Rightarrow> (Return (Response_json (JsonMessage ''success'') None), done))))"

section \<open>The specification's notions and observations of a run\<close>

definition Math_round :: "jsnum \<Rightarrow> jsnum" where
  \<comment> \<open>the specification's \<open>round\<close>: the nearest integer, a half rounded up\<close>
  "Math_round a = (case a of Fin x \<Rightarrow> Fin (of_int \<lfloor>x + 1 / 2\<rfloor>) | _ \<Rightarrow> a)"

definition spec_persisted_amount :: "jsval \<Rightarrow> jsnum" where
  \<comment> \<open>the specification's \<open>round(amount_input * 100)\<close>\<close>
  "spec_persisted_amount amount_input = Math_round (js_times (Number amount_input) (Fin 100))"

definition read_iso_date :: "string \<Rightarrow> (int \<times> nat \<times> nat) option" where
  \<comment> \<open>the year, the month (from 1) and the day a text of the form \<open>YYYY-MM-DD\<close> stands
      for; \<open>None\<close> for a text that is not of that form\<close>
  "read_iso_date s =
     (if length s = 10 \<and> s ! 4 = CHR ''-'' \<and> s ! 7 = CHR ''-''
         \<and> list_all (isDigit 10) (take 4 s) \<and> list_all (isDigit 10) (take 2 (drop 5 s))
         \<and> list_all (isDigit 10) (drop 8 s)
      then Some (int (digitsValue 10 (take 4 s)), digitsValue 10 (take 2 (drop 5 s)),
                 digitsValue 10 (drop 8 s))
      else None)"

definition server_calendar_date :: "Date \<Rightarrow> int \<times> nat \<times> nat" where
  \<comment> \<open>the specification's current calendar date of the server: year, month (from 1), day\<close>
  "server_calendar_date d = (LocalFullYear d, LocalMonth d + 1, LocalDate d)"

definition utc_calendar_date :: "Date \<Rightarrow> int \<times> nat \<times> nat" where
  \<comment> \<open>the calendar date of the same instant in UTC\<close>
  "utc_calendar_date d = (UTCFullYear d, UTCMonth d + 1, UTCDate d)"

definition reported_errors :: "'row action \<Rightarrow> string \<Rightarrow> string list option" where
  \<comment> \<open>the messages a handler's result holds for a field, when it returned any\<close>
  "reported_errors a field =
     (case fst a of
        Return (Some st) \<Rightarrow> (case errors st of Some es \<Rightarrow> map_of es field | None \<Rightarrow> None)
      | _ \<Rightarrow> None)"

definition messages_for :: "string \<Rightarrow> issue list \<Rightarrow> string list" where
  \<comment> \<open>the messages of the issues of one field, in order\<close>
  "messages_for f issues = map snd (filter (\<lambda>i. fst i = f) issues)"

section \<open>Concrete submissions and capabilities\<close>

definition database_up :: "(string, unit) sql" where
  "database_up q = Inr []"

definition database_down :: "(string, unit) sql" where
  "database_down q = Inl ''connection refused''"

definition letters_and_spaces :: "string \<Rightarrow> bool" where
  \<comment> \<open>a pattern for names, for the concrete runs\<close>
  "letters_and_spaces s = list_all (\<lambda>c. is_alpha c \<or> c = CHR '' '') s"

definition no_state :: State where
  "no_state = \<lparr>errors = None, message = None\<rparr>"

definition server_clock :: Date where
  \<comment> \<open>7 May 2024, 23:05:00.012 UTC, on a server whose time zone is UTC\<close>
  "server_clock = \<lparr>UTCFullYear = 2024, UTCMonth = 4, UTCDate = 7, UTCHours = 23,
                    UTCMinutes = 5, UTCSeconds = 0, UTCMilliseconds = 12,
                    LocalFullYear = 2024, LocalMonth = 4, LocalDate = 7\<rparr>"

definition kiritimati_clock :: Date where
  \<comment> \<open>7 May 2024, 10:30 UTC, on a server in the time zone \<open>Pacific/Kiritimati\<close> (UTC+14),
      where it is 8 May 2024, 00:30\<close>
  "kiritimati_clock = \<lparr>UTCFullYear = 2024, UTCMonth = 4, UTCDate = 7, UTCHours = 10,
                        UTCMinutes = 30, UTCSeconds = 0, UTCMilliseconds = 0,
                        LocalFullYear = 2024, LocalMonth = 4, LocalDate = 8\<rparr>"

definition year_10000_clock :: Date where
  \<comment> \<open>1 January 10000, 00:00 UTC, on a server whose time zone is UTC\<close>
  "year_10000_clock = \<lparr>UTCFullYear = 10000, UTCMonth = 0, UTCDate = 1, UTCHours = 0,
                        UTCMinutes = 0, UTCSeconds = 0, UTCMilliseconds = 0,
                        LocalFullYear = 10000, LocalMonth = 0, LocalDate = 1\<rparr>"

definition insert_invoice_dated :: "string \<Rightarrow> query" where
  "insert_invoice_dated date =
     Query [''INSERT INTO invoices (customer_id, amount, status, date) VALUES ('',
            '', '', '', '', '', '', '')'']
           [PString ''123'', PNumber (Fin 4999), PString ''pending'', PString date]"

definition jane :: FormData where
  "jane = [(''name'', EntryString ''Jane Doe''), (''email'', EntryString ''jane@x.com''),
           (''url'', EntryString ''https://x.com'')]"

definition jane_name_only :: FormData where
  "jane_name_only = [(''name'', EntryString ''Jane Doe'')]"

definition blank_customer :: FormData where
  "blank_customer = [(''name'', EntryString ''''), (''email'', EntryFile), (''url'', EntryString '''')]"

definition insert_jane :: query where
  "insert_jane = Query [''INSERT INTO customers (customer_id, name, url ) VALUES ('', '', '',
                        '', '', '')'']
                   [PString ''jane@x.com'', PString ''Jane Doe'', PString ''https://x.com'']"

definition update_jane :: query where
  "update_jane = Query [''UPDATE customers SET customer_id = '', '', name = '', '', url = '',
                        '' WHERE id = '', '''']
                   [PString ''jane@x.com'', PString ''Jane Doe'', PString ''https://x.com'',
                    PString ''jane@x.com'']"

definition invoice_form :: "string \<Rightarrow> FormData" where
  "invoice_form amount_input =
     [(''customerId'', EntryString ''123''), (''amount'', EntryString amount_input),
      (''status'', EntryString ''pending''), (''date'', EntryString ''1999-12-31'')]"

definition blank_invoice :: FormData where
  "blank_invoice = [(''amount'', EntryString ''0''), (''status'', EntryString ''overdue'')]"

definition insert_invoice :: "jsnum \<Rightarrow> query" where
  "insert_invoice cents =
     Query [''INSERT INTO invoices (customer_id, amount, status, date) VALUES ('',
            '', '', '', '', '', '', '')'']
           [PString ''123'', PNumber cents, PString ''pending'', PString ''2024-05-07'']"

definition update_invoice :: "jsnum \<Rightarrow> string \<Rightarrow> query" where
  "update_invoice cents id' =
     Query [''UPDATE invoices SET customer_id = '', '', amount = '', '', status = '',
            '' WHERE id = '', '''']
           [PString ''123'', PNumber cents, PString ''pending'', PString id']"

definition wrong_password :: "string \<Rightarrow> FormData \<Rightarrow> unit thrown option" where
  "wrong_password provider formData =
     (if FormData_get formData ''password'' = Str ''123456'' then None
      else Some (AuthError ''CredentialsSignin''))"

definition provider_down :: "string \<Rightarrow> FormData \<Rightarrow> unit thrown option" where
  "provider_down provider formData = Some (AuthError ''CallbackRouteError'')"

definition redirecting :: "string \<Rightarrow> FormData \<Rightarrow> unit thrown option" where
  "redirecting provider formData = Some (Other ())"

definition login_form :: "string \<Rightarrow> FormData" where
  "login_form password =
     [(''email'', EntryString ''user@nextmail.com''), (''password'', EntryString password)]"

definition dquote :: "string \<Rightarrow> string" where
  \<comment> \<open>a text between double quotes\<close>
  "dquote s = [CHR 0x22] @ s @ [CHR 0x22]"

definition undefined_table :: rejection where
  \<comment> \<open>an error of the database client: an \<open>Error\<close> instance with the fields of the
      server's error response\<close>
  "undefined_table =
     ErrorObject ''relation revenue does not exist''
       [(''length'', JInt 106), (''name'', JString ''error''), (''severity'', JString ''ERROR''),
        (''code'', JString ''42P01''), (''detail'', JUndefined),
        (''routine'', JString ''parserOpenTable'')]"

definition connection_error :: "string \<Rightarrow> rejection" where
  \<comment> \<open>\<open>new Error(message)\<close>\<close>
  "connection_error msg = ErrorObject msg []"

definition revenue_rows :: "(rejection, string) sql" where
  "revenue_rows q =
     (if q = Query [''SELECT * FROM revenue''] [] then Inr [''Jan 2000'', ''Feb 1800''] else Inr [])"

definition select_fails :: "(rejection, string) sql" where
  "select_fails q =
     (if q = Query [''SELECT * FROM revenue''] [] then Inl undefined_table else Inr [])"

definition begin_fails :: "(rejection, string) sql" where
  "begin_fails q =
     (if q = Query [''BEGIN''] [] then Inl (connection_error ''too many connections'')
      else Inr [])"

definition commit_fails :: "(rejection, string) sql" where
  "commit_fails q =
     (if q = Query [''COMMIT''] [] then Inl (Primitive (JString ''commit failed''))
      else if q = Query [''SELECT * FROM revenue''] [] then Inr [''Jan 2000''] else Inr [])"

definition connection_lost :: "(rejection, string) sql" where
  "connection_lost q =
     (if q = Query [''BEGIN''] [] then Inr []
      else if q = Query [''SELECT * FROM revenue''] []
      then Inl (connection_error ''Connection terminated unexpectedly'')
      else Inl (connection_error ''Client has encountered a connection error''))"

section \<open>Evaluation lemmas\<close>

lemma floor_numeral_div: "\<lfloor>(numeral a :: rat) / numeral b\<rfloor> = numeral a div numeral b"
  using floor_divide_of_int_eq [of "numeral a" "numeral b", where ?'a = rat] by simp

lemma ceiling_numeral_div: "\<lceil>(numeral a :: rat) / numeral b\<rceil> = - (- numeral a div numeral b)"
  using ceiling_divide_eq_div [of "numeral a" "numeral b", where ?'a = rat] by simp

lemma bits_zero: "n = 0 \<Longrightarrow> bits n = 0"
  by (simp add: bits.simps)

lemma bits_pos: "n \<noteq> 0 \<Longrightarrow> bits n = Suc (bits (n div 2))"
  by (subst bits.simps) simp

lemmas toDouble_eval = toDouble_def ilog2_def pow2_def roundTiesToEven_def bits_zero bits_pos
  Let_def floor_numeral_div ceiling_numeral_div

lemmas Number_eval = Number_def StringToNumber_def trim_def StrWhiteSpaceChar_def
  NonDecimalIntegerLiteral_def StrDecimalLiteral_def StrUnsignedDecimalLiteral_def
  ExponentPart_def isDigit_def digitValue_def digitsValue_def pow10_def Let_def

lemma decimal_small: "n < 10 \<Longrightarrow> decimal n = [''0123456789'' ! n]"
  by (simp add: decimal.simps)

lemma decimal_big: "10 \<le> n \<Longrightarrow> decimal n = decimal (n div 10) @ [''0123456789'' ! (n mod 10)]"
  by (subst decimal.simps) simp

lemma is_alpha_code:
  "is_alpha c \<longleftrightarrow> (97 \<le> (of_char c :: nat) \<and> (of_char c :: nat) \<le> 122)
                 \<or> (65 \<le> (of_char c :: nat) \<and> (of_char c :: nat) \<le> 90)"
  by (simp add: is_alpha_def Let_def)

lemmas url_eval = url_regex_test_def url_body_def lower_code_def is_alpha_code
  is_line_terminator_def StrWhiteSpaceChar_def Let_def

lemmas customerSchema_eval = customerSchema_safeParse_def customerSchema_name_def
  customerSchema_email_def customerSchema_url_def z_optional_def z_string_def
  invalid_type_message_def getParsedType_def issues_of_def

lemmas InvoiceSchema_eval = CreateInvoice_safeParse_def UpdateInvoice_safeParse_def
  InvoiceSchema_customerId_def InvoiceSchema_amount_def InvoiceSchema_status_def
  z_string_def z_enum_def invalid_type_message_def getParsedType_def issues_of_def
  js_le_def quote_def

lemma Number_49_99: "Number (Str ''49.99'') = Fin (7035467042882847 / 140737488355328)"
proof -
  have "Number (Str ''49.99'') = toDouble (4999 / 100)"
    by (simp add: Number_eval)
  also have "\<dots> = Fin (7035467042882847 / 140737488355328)"
    by (simp add: toDouble_eval)
  finally show ?thesis .
qed

lemma cents_49_99: "js_times (Fin (7035467042882847 / 140737488355328)) (Fin 100) = Fin 4999"
  by (simp add: js_times_def toDouble_eval)

lemma Number_0_125: "Number (Str ''0.125'') = Fin (1 / 8)"
proof -
  have "Number (Str ''0.125'') = toDouble (1 / 8)"
    by (simp add: Number_eval)
  also have "\<dots> = Fin (1 / 8)"
    by (simp add: toDouble_eval)
  finally show ?thesis .
qed

lemma cents_0_125: "js_times (Fin (1 / 8)) (Fin 100) = Fin (25 / 2)"
  by (simp add: js_times_def toDouble_eval)

text \<open>
  Amounts with two decimals need not give an integer either: \<open>1.1 * 100\<close> is the double
  \<open>110.00000000000001\<close>.
\<close>

lemma cents_1_1:
  "js_times (Number (Str ''1.1'')) (Fin 100) = Fin (7740561859543041 / 70368744177664)"
proof -
  have "Number (Str ''1.1'') = toDouble (11 / 10)"
    by (simp add: Number_eval)
  also have "\<dots> = Fin (2476979795053773 / 2251799813685248)"
    by (simp add: toDouble_eval)
  finally show ?thesis
    by (simp add: js_times_def toDouble_eval)
qed

lemma Number_abc: "Number (Str ''abc'') = NaN"
  by (simp add: Number_eval)

lemma Number_0: "Number (Str ''0'') = Fin 0"
  by (simp add: Number_eval toDouble_def)

lemma today: "split_first CHR ''T'' (toISOString server_clock) = ''2024-05-07''"
  by (simp add: split_first_def toISOString_def server_clock_def padStart_def
      decimal_small decimal_big)

lemma jane_get:
  "FormData_get jane ''name'' = Str ''Jane Doe''"
  "FormData_get jane ''email'' = Str ''jane@x.com''"
  "FormData_get jane ''url'' = Str ''https://x.com''"
  by (simp_all add: FormData_get_def jane_def)

lemma jane_parse:
  "customerSchema_safeParse letters_and_spaces (Str ''Jane Doe'') (Str ''jane@x.com'')
     (Str ''https://x.com'')
   = Inr \<lparr>name = ''Jane Doe'', email = Some ''jane@x.com'', url = Some ''https://x.com''\<rparr>"
proof -
  have "url_regex_test ''https://x.com''"
    by (simp add: url_eval)
  moreover have "letters_and_spaces ''Jane Doe''"
    by (simp add: letters_and_spaces_def is_alpha_code)
  ultimately show ?thesis
    by (simp add: customerSchema_eval)
qed

lemma createCustomer_jane:
  "createCustomer letters_and_spaces sql prevState jane
   = (case sql insert_jane of
        Inl error \<Rightarrow>
          (Return (Some \<lparr>errors = None,
                          message = Some ''Database Error: Failed to Create Customer.''\<rparr>),
           [Sql insert_jane])
      | Inr rows \<Rightarrow>
          (Throw (NEXT_REDIRECT ''/dashboard/customers''),
           [Sql insert_jane, RevalidatePath ''/dashboard/customers'',
            Redirect ''/dashboard/customers'']))"
  by (simp add: createCustomer_def jane_get jane_parse opt_param_def insert_jane_def Let_def
      split: sum.splits)

lemma updateCustomer_jane:
  "updateCustomer letters_and_spaces sql id' prevState jane
   = (case sql update_jane of
        Inl error \<Rightarrow>
          (Return (Some \<lparr>errors = None,
                          message = Some ''Database Error: Failed to update Customer Jane Doe''\<rparr>),
           [Sql update_jane])
      | Inr rows \<Rightarrow>
          (Throw (NEXT_REDIRECT ''/dashboard/customers''),
           [Sql update_jane, RevalidatePath ''/dashboard/customers'',
            Redirect ''/dashboard/customers'']))"
  by (simp add: updateCustomer_def jane_get jane_parse opt_param_def update_jane_def Let_def
      split: sum.splits)

lemma invoice_form_get:
  "FormData_get (invoice_form a) ''customerId'' = Str ''123''"
  "FormData_get (invoice_form a) ''amount'' = Str a"
  "FormData_get (invoice_form a) ''status'' = Str ''pending''"
  by (simp_all add: FormData_get_def invoice_form_def)

lemma invoice_parse:
  "Number (Str a) = Fin x \<Longrightarrow> 0 < x \<Longrightarrow>
   CreateInvoice_safeParse (Str ''123'') (Str a) (Str ''pending'')
   = Inr \<lparr>customerId = ''123'', amount = Fin x, status = ''pending''\<rparr>"
  by (simp add: InvoiceSchema_eval)

lemma createInvoice_form:
  assumes "Number (Str a) = Fin x" and "0 < x"
  shows "createInvoice sql server_clock prevState (invoice_form a)
   = (case sql (insert_invoice (js_times (Fin x) (Fin 100))) of
        Inl error \<Rightarrow>
          (Return (Some \<lparr>errors = None,
                          message = Some ''Database Error: Failed to Create Invoice.''\<rparr>),
           [Sql (insert_invoice (js_times (Fin x) (Fin 100)))])
      | Inr rows \<Rightarrow>
          (Throw (NEXT_REDIRECT ''/dashboard/invoices''),
           [Sql (insert_invoice (js_times (Fin x) (Fin 100))),
            RevalidatePath ''/dashboard/invoices'', Redirect ''/dashboard/invoices'']))"
  by (simp add: createInvoice_def invoice_form_get invoice_parse [OF assms] today
      insert_invoice_def Let_def split: sum.splits)

lemma createInvoice_dated:
  assumes "split_first CHR ''T'' (toISOString now) = d"
  shows "createInvoice database_up now prevState (invoice_form ''49.99'')
   = (Throw (NEXT_REDIRECT ''/dashboard/invoices''),
      [Sql (insert_invoice_dated d), RevalidatePath ''/dashboard/invoices'',
       Redirect ''/dashboard/invoices''])"
proof -
  have "CreateInvoice_safeParse (Str ''123'') (Str ''49.99'') (Str ''pending'')
      = Inr \<lparr>customerId = ''123'', amount = Fin (7035467042882847 / 140737488355328),
              status = ''pending''\<rparr>"
    by (rule invoice_parse [OF Number_49_99]) simp
  then show ?thesis
    using assms
    by (simp add: createInvoice_def invoice_form_get cents_49_99 insert_invoice_dated_def
        database_up_def Let_def)
qed

lemma updateInvoice_form:
  assumes "Number (Str a) = Fin x" and "0 < x"
  shows "updateInvoice sql id' prevState (invoice_form a)
   = (case sql (update_invoice (js_times (Fin x) (Fin 100)) id') of
        Inl error \<Rightarrow>
          (Return (Some \<lparr>errors = None,
                          message = Some (''Database Error: Failed to update '' @ id')\<rparr>),
           [Sql (update_invoice (js_times (Fin x) (Fin 100)) id')])
      | Inr rows \<Rightarrow>
          (Throw (NEXT_REDIRECT ''/dashboard/invoices''),
           [Sql (update_invoice (js_times (Fin x) (Fin 100)) id'),
            RevalidatePath ''/dashboard/invoices'', Redirect ''/dashboard/invoices'']))"
  by (simp add: updateInvoice_def UpdateInvoice_safeParse_def invoice_form_get
      invoice_parse [OF assms] update_invoice_def Let_def split: sum.splits)

section \<open>Lemmas on the validators and the handlers\<close>

lemma map_of_push_error:
  "map_of (push_error acc i) f =
     (if f = fst i
      then (case map_of acc (fst i) of None \<Rightarrow> Some [snd i] | Some ms \<Rightarrow> Some (ms @ [snd i]))
      else map_of acc f)"
proof (cases "map_of acc (fst i)")
  case None
  then show ?thesis
    by (auto simp: push_error_def map_add_def split: option.splits)
next
  case (Some ms)
  have "map_of (map (\<lambda>(k, v). if k = fst i then (k, v @ [snd i]) else (k, v)) acc) f =
        (if f = fst i then map_option (\<lambda>v. v @ [snd i]) (map_of acc f) else map_of acc f)"
    by (induction acc) auto
  with Some show ?thesis
    by (auto simp: push_error_def)
qed

lemma map_of_foldl_push_error:
  "map_of (foldl push_error acc issues) f =
     (case map_of acc f of
        None \<Rightarrow> (if messages_for f issues = [] then None else Some (messages_for f issues))
      | Some ms \<Rightarrow> Some (ms @ messages_for f issues))"
proof (induction issues arbitrary: acc)
  case Nil
  then show ?case
    by (simp add: messages_for_def split: option.splits)
next
  case (Cons i issues)
  show ?case
    unfolding foldl_Cons Cons.IH map_of_push_error
    by (simp add: messages_for_def split: option.splits)
qed

lemma map_of_fieldErrors:
  "map_of (fieldErrors issues) f =
     (if messages_for f issues = [] then None else Some (messages_for f issues))"
  by (simp add: fieldErrors_def map_of_foldl_push_error)

lemma messages_for_append: "messages_for f (xs @ ys) = messages_for f xs @ messages_for f ys"
  by (simp add: messages_for_def)

lemma messages_for_issues_of:
  "messages_for f (issues_of p r) = (case r of Inl ms \<Rightarrow> if p = f then ms else [] | Inr x \<Rightarrow> [])"
  by (simp add: messages_for_def issues_of_def comp_def split: sum.splits)

lemma customerSchema_safeParse_cases:
  "customerSchema_safeParse nameRegex n e u =
     (if isl (customerSchema_name nameRegex n) \<or> isl (customerSchema_email e)
         \<or> isl (customerSchema_url u)
      then Inl (issues_of ''name'' (customerSchema_name nameRegex n)
                @ issues_of ''email'' (customerSchema_email e)
                @ issues_of ''url'' (customerSchema_url u))
      else Inr \<lparr>name = projr (customerSchema_name nameRegex n),
                email = projr (customerSchema_email e), url = projr (customerSchema_url u)\<rparr>)"
  by (simp add: customerSchema_safeParse_def split: sum.splits)

lemma CreateInvoice_safeParse_cases:
  "CreateInvoice_safeParse c a s =
     (if isl (InvoiceSchema_customerId c) \<or> isl (InvoiceSchema_amount a)
         \<or> isl (InvoiceSchema_status s)
      then Inl (issues_of ''customerId'' (InvoiceSchema_customerId c)
                @ issues_of ''amount'' (InvoiceSchema_amount a)
                @ issues_of ''status'' (InvoiceSchema_status s))
      else Inr \<lparr>customerId = projr (InvoiceSchema_customerId c),
                amount = projr (InvoiceSchema_amount a),
                status = projr (InvoiceSchema_status s)\<rparr>)"
  by (simp add: CreateInvoice_safeParse_def split: sum.splits)

lemma InvoiceSchema_amount_Inr: "InvoiceSchema_amount a = Inr x \<Longrightarrow> x = Number a"
  by (simp add: InvoiceSchema_amount_def Let_def split: if_splits)

lemma CreateInvoice_safeParse_amount:
  "CreateInvoice_safeParse c a s = Inr data \<Longrightarrow> amount data = Number a"
  by (cases "InvoiceSchema_amount a")
    (auto simp: CreateInvoice_safeParse_cases InvoiceSchema_amount_Inr split: if_splits)

lemma field_messages_nonempty:
  "customerSchema_name nameRegex v = Inl ms \<Longrightarrow> ms \<noteq> []"
  "customerSchema_email v = Inl ms \<Longrightarrow> ms \<noteq> []"
  "customerSchema_url v = Inl ms \<Longrightarrow> ms \<noteq> []"
  "InvoiceSchema_customerId v = Inl ms \<Longrightarrow> ms \<noteq> []"
  "InvoiceSchema_amount v = Inl ms \<Longrightarrow> ms \<noteq> []"
  "InvoiceSchema_status v = Inl ms \<Longrightarrow> ms \<noteq> []"
  by (auto simp: customerSchema_name_def customerSchema_email_def customerSchema_url_def
      InvoiceSchema_customerId_def InvoiceSchema_amount_def InvoiceSchema_status_def
      z_optional_def z_string_def z_enum_def Let_def
      split: sum.splits jsval.splits if_splits)

lemma reported_errors_fieldErrors:
  "reported_errors (Return (Some \<lparr>errors = Some (fieldErrors issues), message = m\<rparr>), effs) f =
     (if messages_for f issues = [] then None else Some (messages_for f issues))"
  by (simp add: reported_errors_def map_of_fieldErrors)

lemma customer_field_reported:
  assumes bad: "isl (customerSchema_name nameRegex (FormData_get formData ''name''))
      \<or> isl (customerSchema_email (FormData_get formData ''email''))
      \<or> isl (customerSchema_url (FormData_get formData ''url''))"
  shows "snd (createCustomer nameRegex sql prevState formData) = []"
    and "snd (updateCustomer nameRegex sql id' prevState formData) = []"
    and "reported_errors (createCustomer nameRegex sql prevState formData) f =
         (if f = ''name'' then
            (case customerSchema_name nameRegex (FormData_get formData ''name'') of
               Inl ms \<Rightarrow> Some ms | Inr x \<Rightarrow> None)
          else if f = ''email'' then
            (case customerSchema_email (FormData_get formData ''email'') of
               Inl ms \<Rightarrow> Some ms | Inr x \<Rightarrow> None)
          else if f = ''url'' then
            (case customerSchema_url (FormData_get formData ''url'') of
               Inl ms \<Rightarrow> Some ms | Inr x \<Rightarrow> None)
          else None)"
    and "reported_errors (updateCustomer nameRegex sql id' prevState formData) f =
         reported_errors (createCustomer nameRegex sql prevState formData) f"
  using bad field_messages_nonempty(1-3)
  by (auto simp: createCustomer_def updateCustomer_def customerSchema_safeParse_cases
      reported_errors_fieldErrors messages_for_append messages_for_issues_of
      split: sum.splits)

lemma invoice_field_reported:
  assumes bad: "isl (InvoiceSchema_customerId (FormData_get formData ''customerId''))
      \<or> isl (InvoiceSchema_amount (FormData_get formData ''amount''))
      \<or> isl (InvoiceSchema_status (FormData_get formData ''status''))"
  shows "snd (createInvoice sql now prevState formData) = []"
    and "snd (updateInvoice sql id' prevState formData) = []"
    and "reported_errors (createInvoice sql now prevState formData) f =
         (if f = ''customerId'' then
            (case InvoiceSchema_customerId (FormData_get formData ''customerId'') of
               Inl ms \<Rightarrow> Some ms | Inr x \<Rightarrow> None)
          else if f = ''amount'' then
            (case InvoiceSchema_amount (FormData_get formData ''amount'') of
               Inl ms \<Rightarrow> Some ms | Inr x \<Rightarrow> None)
          else if f = ''status'' then
            (case InvoiceSchema_status (FormData_get formData ''status'') of
               Inl ms \<Rightarrow> Some ms | Inr x \<Rightarrow> None)
          else None)"
    and "reported_errors (updateInvoice sql id' prevState formData) f =
         reported_errors (createInvoice sql now prevState formData) f"
  using bad field_messages_nonempty(4-6)
  by (auto simp: createInvoice_def updateInvoice_def UpdateInvoice_safeParse_def
      CreateInvoice_safeParse_cases reported_errors_fieldErrors messages_for_append
      messages_for_issues_of split: sum.splits)

lemma digit_char_in: "k < 10 \<Longrightarrow> ''0123456789'' ! k \<in> set ''0123456789''"
  by (rule nth_mem) simp

lemma set_decimal: "set (decimal n) \<subseteq> set ''0123456789''"
proof (induction n rule: decimal.induct)
  case (1 n)
  show ?case
  proof (cases "n < 10")
    case True
    then show ?thesis
      using digit_char_in [of n] by (subst decimal.simps) simp
  next
    case False
    moreover have "n mod 10 < 10"
      by simp
    ultimately show ?thesis
      using "1.IH" digit_char_in [of "n mod 10"] by (subst decimal.simps) simp
  qed
qed

lemma set_padStart: "set (padStart w n) \<subseteq> set ''0123456789''"
  using set_decimal [of n] by (auto simp: padStart_def)

lemma takeWhile_padStart:
  "takeWhile (\<lambda>c. c \<noteq> CHR ''T'') (padStart w n @ rest)
   = padStart w n @ takeWhile (\<lambda>c. c \<noteq> CHR ''T'') rest"
proof (rule takeWhile_append2)
  fix c
  assume "c \<in> set (padStart w n)"
  then have "c \<in> set ''0123456789''"
    using set_padStart by blast
  then show "c \<noteq> CHR ''T''"
    by auto
qed

lemma split_first_toISOString:
  assumes "0 \<le> UTCFullYear d" and "UTCFullYear d \<le> 9999"
  shows "split_first CHR ''T'' (toISOString d)
         = padStart 4 (nat (UTCFullYear d)) @ ''-'' @ padStart 2 (UTCMonth d + 1) @ ''-''
           @ padStart 2 (UTCDate d)"
  using assms
  by (simp add: split_first_def toISOString_def takeWhile_padStart)

lemma length_decimal: "0 < w \<Longrightarrow> n < 10 ^ w \<Longrightarrow> length (decimal n) \<le> w"
proof (induction n arbitrary: w rule: decimal.induct)
  case (1 n)
  show ?case
  proof (cases "n < 10")
    case True
    then show ?thesis
      using "1.prems" by (subst decimal.simps) simp
  next
    case False
    then have "10 ^ 1 \<le> n"
      by simp
    with "1.prems" have "(10::nat) ^ 1 < 10 ^ w"
      by (meson le_less_trans)
    then have w: "1 < w"
      by (simp only: power_strict_increasing_iff)
    then obtain v where v: "w = Suc v" "0 < v"
      by (cases w) auto
    with "1.prems" have "n div 10 < 10 ^ v"
      by (simp add: less_mult_imp_div_less mult.commute)
    with False v have "length (decimal (n div 10)) \<le> v"
      using "1.IH" by simp
    with v False show ?thesis
      by (subst decimal.simps) simp
  qed
qed

lemma length_padStart: "0 < w \<Longrightarrow> n < 10 ^ w \<Longrightarrow> length (padStart w n) = w"
  using length_decimal [of w n] by (simp add: padStart_def)

lemma digitValue_digit_char: "k < 10 \<Longrightarrow> digitValue (''0123456789'' ! k) = k"
proof -
  assume "k < 10"
  then have "k = 0 \<or> k = 1 \<or> k = 2 \<or> k = 3 \<or> k = 4 \<or> k = 5 \<or> k = 6 \<or> k = 7
      \<or> k = 8 \<or> k = 9"
    by arith
  then show ?thesis
    by (elim disjE) (simp_all add: digitValue_def)
qed

lemma digitsValue_snoc: "digitsValue b (ds @ [c]) = digitsValue b ds * b + digitValue c"
  by (simp add: digitsValue_def)

lemma digitsValue_decimal: "digitsValue 10 (decimal n) = n"
proof (induction n rule: decimal.induct)
  case (1 n)
  show ?case
  proof (cases "n < 10")
    case True
    then show ?thesis
      by (subst decimal.simps) (simp add: digitsValue_def digitValue_digit_char)
  next
    case False
    then have "digitsValue 10 (decimal (n div 10)) = n div 10"
      using "1.IH" by simp
    with False show ?thesis
      by (subst decimal.simps) (simp add: digitsValue_snoc digitValue_digit_char)
  qed
qed

lemma digitsValue_zeros: "digitsValue 10 (replicate k CHR ''0'' @ ds) = digitsValue 10 ds"
proof (induction k)
  case 0
  then show ?case by simp
next
  case (Suc k)
  have "digitValue CHR ''0'' = 0"
    by (simp add: digitValue_def)
  then have "digitsValue 10 (CHR ''0'' # xs) = digitsValue 10 xs" for xs
    by (simp add: digitsValue_def)
  with Suc show ?case
    by simp
qed

lemma digitsValue_padStart: "digitsValue 10 (padStart w n) = n"
  by (simp add: padStart_def digitsValue_zeros digitsValue_decimal)

lemma isDigit_padStart: "list_all (isDigit 10) (padStart w n)"
proof -
  have "isDigit 10 c" if "c \<in> set ''0123456789''" for c
    using that by (auto simp: isDigit_def digitValue_def)
  then show ?thesis
    using set_padStart [of w n] by (auto simp: list_all_iff)
qed

lemma read_iso_date_fields:
  assumes "length y = 4" and "length m = 2" and "length d = 2"
    and "list_all (isDigit 10) y" and "list_all (isDigit 10) m" and "list_all (isDigit 10) d"
  shows "read_iso_date (y @ ''-'' @ m @ ''-'' @ d)
         = Some (int (digitsValue 10 y), digitsValue 10 m, digitsValue 10 d)"
  using assms by (simp add: read_iso_date_def nth_append)

lemma read_iso_date_toISOString:
  assumes "0 \<le> UTCFullYear d" and "UTCFullYear d \<le> 9999" and "UTCMonth d < 12"
    and "UTCDate d \<le> 31"
  shows "read_iso_date (split_first CHR ''T'' (toISOString d)) = Some (utc_calendar_date d)"
proof -
  have "nat (UTCFullYear d) < 10 ^ 4"
    using assms by simp
  then have y: "length (padStart 4 (nat (UTCFullYear d))) = 4"
    by (simp add: length_padStart)
  have m: "length (padStart 2 (UTCMonth d + 1)) = 2"
    using assms by (simp add: length_padStart)
  have dd: "length (padStart 2 (UTCDate d)) = 2"
    using assms by (simp add: length_padStart)
  have "read_iso_date (split_first CHR ''T'' (toISOString d))
      = read_iso_date (padStart 4 (nat (UTCFullYear d)) @ ''-'' @ padStart 2 (UTCMonth d + 1)
                       @ ''-'' @ padStart 2 (UTCDate d))"
    by (simp only: split_first_toISOString [OF assms(1,2)])
  also have "\<dots> = Some (int (digitsValue 10 (padStart 4 (nat (UTCFullYear d)))),
                       digitsValue 10 (padStart 2 (UTCMonth d + 1)),
                       digitsValue 10 (padStart 2 (UTCDate d)))"
    by (rule read_iso_date_fields [OF y m dd isDigit_padStart isDigit_padStart isDigit_padStart])
  also have "\<dots> = Some (utc_calendar_date d)"
    using assms(1) by (simp add: digitsValue_padStart utc_calendar_date_def)
  finally show ?thesis .
qed

section \<open>The claims\<close>

subsection \<open>C1: the amount persisted for an invoice\<close>

text \<open>
  C1, as stated: for every valid invoice submission the amount persisted by
  \<open>createInvoice\<close> and \<open>updateInvoice\<close> equals \<open>round(amount_input * 100)\<close>. The handlers
  bind \<open>amount * 100\<close> and never round: the submission with amount \<open>0.125\<close> persists
  \<open>12.5\<close>, where the rounded value is \<open>13\<close>. (\<open>0.125\<close>, \<open>100\<close> and \<open>12.5\<close> are doubles,
  so the product is exact; \<open>cents_1_1\<close> gives a two-decimal amount whose product is not
  an integer.)
\<close>

theorem createInvoice_amount_not_rounded:
  "createInvoice database_up server_clock no_state (invoice_form ''0.125'')
     = (Throw (NEXT_REDIRECT ''/dashboard/invoices''),
        [Sql (insert_invoice (Fin (25 / 2))), RevalidatePath ''/dashboard/invoices'',
         Redirect ''/dashboard/invoices''])
   \<and> spec_persisted_amount (Str ''0.125'') = Fin 13"
proof -
  have "createInvoice database_up server_clock no_state (invoice_form ''0.125'')
     = (Throw (NEXT_REDIRECT ''/dashboard/invoices''),
        [Sql (insert_invoice (Fin (25 / 2))), RevalidatePath ''/dashboard/invoices'',
         Redirect ''/dashboard/invoices''])"
    using createInvoice_form [OF Number_0_125, of database_up no_state]
    by (simp add: cents_0_125 database_up_def)
  moreover have "spec_persisted_amount (Str ''0.125'') = Fin 13"
    by (simp add: spec_persisted_amount_def Number_0_125 cents_0_125 Math_round_def
        floor_numeral_div)
  ultimately show ?thesis
    by simp
qed

text \<open>
  C1, amended: whenever \<open>createInvoice\<close> or \<open>updateInvoice\<close> executes a statement, the
  amount it binds is the product, in double arithmetic and with no rounding step, of the
  number the \<open>amount\<close> field coerces to and 100; for the amount \<open>49.99\<close> that product is
  the integer 4999.
\<close>

theorem invoice_amount_times_100:
  "(Sql q \<in> set (snd (createInvoice sql now prevState formData)) \<longrightarrow>
      (\<exists>c s d. q = Query [''INSERT INTO invoices (customer_id, amount, status, date) VALUES ('',
                           '', '', '', '', '', '', '')'']
                    [PString c,
                     PNumber (js_times (Number (FormData_get formData ''amount'')) (Fin 100)),
                     PString s, PString d]))
   \<and> (Sql q \<in> set (snd (updateInvoice sql id' prevState formData)) \<longrightarrow>
      (\<exists>c s. q = Query [''UPDATE invoices SET customer_id = '', '', amount = '',
                         '', status = '', '' WHERE id = '', '''']
                  [PString c,
                   PNumber (js_times (Number (FormData_get formData ''amount'')) (Fin 100)),
                   PString s, PString id']))
   \<and> js_times (Number (Str ''49.99'')) (Fin 100) = Fin 4999"
  by (auto simp: createInvoice_def updateInvoice_def UpdateInvoice_safeParse_def Let_def
      CreateInvoice_safeParse_amount Number_49_99 cents_49_99 split: sum.splits)

theorem invoice_amount_times_100_witness:
  "Sql (insert_invoice (Fin 4999))
     \<in> set (snd (createInvoice database_up server_clock no_state (invoice_form ''49.99'')))
   \<and> Sql (update_invoice (Fin 4999) ''7'')
     \<in> set (snd (updateInvoice database_up ''7'' no_state (invoice_form ''49.99'')))
   \<and> js_times (Number (FormData_get (invoice_form ''49.99'') ''amount'')) (Fin 100) = Fin 4999"
proof -
  have pos: "(0::rat) < 7035467042882847 / 140737488355328"
    by simp
  have a: "Sql (insert_invoice (Fin 4999))
     \<in> set (snd (createInvoice database_up server_clock no_state (invoice_form ''49.99'')))"
    using createInvoice_form [OF Number_49_99 pos, of database_up no_state]
    by (simp add: cents_49_99 database_up_def)
  have b: "Sql (update_invoice (Fin 4999) ''7'')
     \<in> set (snd (updateInvoice database_up ''7'' no_state (invoice_form ''49.99'')))"
    using updateInvoice_form [OF Number_49_99 pos, of database_up "''7''" no_state]
    by (simp add: cents_49_99 database_up_def)
  have "\<exists>c s d. insert_invoice (Fin 4999)
      = Query [''INSERT INTO invoices (customer_id, amount, status, date) VALUES ('',
               '', '', '', '', '', '', '')'']
          [PString c,
           PNumber (js_times (Number (FormData_get (invoice_form ''49.99'') ''amount'')) (Fin 100)),
           PString s, PString d]"
    using a invoice_amount_times_100
      [of "insert_invoice (Fin 4999)" database_up server_clock no_state "invoice_form ''49.99''"]
    by blast
  then have "js_times (Number (FormData_get (invoice_form ''49.99'') ''amount'')) (Fin 100)
      = Fin 4999"
    by (auto simp: insert_invoice_def)
  with a b show ?thesis
    by simp
qed

subsection \<open>C2: a failing statement is swallowed\<close>

text \<open>
  C2: for each of the six mutation handlers, when the statement it executes fails, the
  handler does not raise: it returns a result whose \<open>message\<close> starts with
  \<open>Database Error\<close>, and its only effect is the failed statement, so it neither
  invalidates the cache nor redirects.
\<close>

theorem database_error_returned:
  "(Sql q \<in> set (snd (createCustomer nameRegex sql prevState formData)) \<and> sql q = Inl error \<longrightarrow>
      (\<exists>m. createCustomer nameRegex sql prevState formData
              = (Return (Some \<lparr>errors = None, message = Some m\<rparr>), [Sql q])
           \<and> prefix ''Database Error'' m))
   \<and> (Sql q \<in> set (snd (updateCustomer nameRegex sql id' prevState formData)) \<and> sql q = Inl error \<longrightarrow>
      (\<exists>m. updateCustomer nameRegex sql id' prevState formData
              = (Return (Some \<lparr>errors = None, message = Some m\<rparr>), [Sql q])
           \<and> prefix ''Database Error'' m))
   \<and> (Sql q \<in> set (snd (deleteCustomer sql id')) \<and> sql q = Inl error \<longrightarrow>
      (\<exists>m. deleteCustomer sql id'
              = (Return (Some \<lparr>errors = None, message = Some m\<rparr>), [Sql q])
           \<and> prefix ''Database Error'' m))
   \<and> (Sql q \<in> set (snd (createInvoice sql now prevState formData)) \<and> sql q = Inl error \<longrightarrow>
      (\<exists>m. createInvoice sql now prevState formData
              = (Return (Some \<lparr>errors = None, message = Some m\<rparr>), [Sql q])
           \<and> prefix ''Database Error'' m))
   \<and> (Sql q \<in> set (snd (updateInvoice sql id' prevState formData)) \<and> sql q = Inl error \<longrightarrow>
      (\<exists>m. updateInvoice sql id' prevState formData
              = (Return (Some \<lparr>errors = None, message = Some m\<rparr>), [Sql q])
           \<and> prefix ''Database Error'' m))
   \<and> (Sql q \<in> set (snd (deleteInvoice sql id')) \<and> sql q = Inl error \<longrightarrow>
      (\<exists>m. deleteInvoice sql id'
              = (Return (Some \<lparr>errors = None, message = Some m\<rparr>), [Sql q])
           \<and> prefix ''Database Error'' m))"
proof (intro conjI impI)
  assume "Sql q \<in> set (snd (createCustomer nameRegex sql prevState formData)) \<and> sql q = Inl error"
  then show "\<exists>m. createCustomer nameRegex sql prevState formData
              = (Return (Some \<lparr>errors = None, message = Some m\<rparr>), [Sql q])
           \<and> prefix ''Database Error'' m"
    by (auto simp: createCustomer_def Let_def split: sum.splits)
next
  assume "Sql q \<in> set (snd (updateCustomer nameRegex sql id' prevState formData)) \<and> sql q = Inl error"
  then show "\<exists>m. updateCustomer nameRegex sql id' prevState formData
              = (Return (Some \<lparr>errors = None, message = Some m\<rparr>), [Sql q])
           \<and> prefix ''Database Error'' m"
    by (auto simp: updateCustomer_def Let_def split: sum.splits)
next
  assume "Sql q \<in> set (snd (deleteCustomer sql id')) \<and> sql q = Inl error"
  then show "\<exists>m. deleteCustomer sql id'
              = (Return (Some \<lparr>errors = None, message = Some m\<rparr>), [Sql q])
           \<and> prefix ''Database Error'' m"
    by (auto simp: deleteCustomer_def Let_def split: sum.splits)
next
  assume "Sql q \<in> set (snd (createInvoice sql now prevState formData)) \<and> sql q = Inl error"
  then show "\<exists>m. createInvoice sql now prevState formData
              = (Return (Some \<lparr>errors = None, message = Some m\<rparr>), [Sql q])
           \<and> prefix ''Database Error'' m"
    by (auto simp: createInvoice_def Let_def split: sum.splits)
next
  assume "Sql q \<in> set (snd (updateInvoice sql id' prevState formData)) \<and> sql q = Inl error"
  then show "\<exists>m. updateInvoice sql id' prevState formData
              = (Return (Some \<lparr>errors = None, message = Some m\<rparr>), [Sql q])
           \<and> prefix ''Database Error'' m"
    by (auto simp: updateInvoice_def Let_def split: sum.splits)
next
  assume "Sql q \<in> set (snd (deleteInvoice sql id')) \<and> sql q = Inl error"
  then show "\<exists>m. deleteInvoice sql id'
              = (Return (Some \<lparr>errors = None, message = Some m\<rparr>), [Sql q])
           \<and> prefix ''Database Error'' m"
    by (auto simp: deleteInvoice_def Let_def split: sum.splits)
qed

theorem database_error_returned_witness:
  "(Sql insert_jane \<in> set (snd (createCustomer letters_and_spaces database_down no_state jane))
      \<and> database_down insert_jane = Inl ''connection refused'')
   \<and> (\<exists>m. createCustomer letters_and_spaces database_down no_state jane
              = (Return (Some \<lparr>errors = None, message = Some m\<rparr>), [Sql insert_jane])
          \<and> prefix ''Database Error'' m)
   \<and> (\<exists>m. updateCustomer letters_and_spaces database_down ''42'' no_state jane
              = (Return (Some \<lparr>errors = None, message = Some m\<rparr>), [Sql update_jane])
          \<and> prefix ''Database Error'' m)
   \<and> (\<exists>m. deleteCustomer database_down ''jane@x.com''
              = (Return (Some \<lparr>errors = None, message = Some m\<rparr>),
                 [Sql (Query [''DELETE FROM customers WHERE email = '', ''''] [PString ''jane@x.com''])])
          \<and> prefix ''Database Error'' m)
   \<and> (\<exists>m. createInvoice database_down server_clock no_state (invoice_form ''49.99'')
              = (Return (Some \<lparr>errors = None, message = Some m\<rparr>), [Sql (insert_invoice (Fin 4999))])
          \<and> prefix ''Database Error'' m)
   \<and> (\<exists>m. updateInvoice database_down ''7'' no_state (invoice_form ''49.99'')
              = (Return (Some \<lparr>errors = None, message = Some m\<rparr>),
                 [Sql (update_invoice (Fin 4999) ''7'')])
          \<and> prefix ''Database Error'' m)
   \<and> (\<exists>m. deleteInvoice database_down ''7''
              = (Return (Some \<lparr>errors = None, message = Some m\<rparr>),
                 [Sql (Query [''DELETE FROM invoices WHERE id = '', ''''] [PString ''7''])])
          \<and> prefix ''Database Error'' m)"
proof -
  have down: "\<And>q. database_down q = Inl ''connection refused''"
    by (simp add: database_down_def)
  have pos: "(0::rat) < 7035467042882847 / 140737488355328"
    by simp
  have a: "Sql insert_jane \<in> set (snd (createCustomer letters_and_spaces database_down no_state jane))"
    by (simp add: createCustomer_jane down)
  have b: "Sql update_jane
      \<in> set (snd (updateCustomer letters_and_spaces database_down ''42'' no_state jane))"
    by (simp add: updateCustomer_jane down)
  have c: "Sql (Query [''DELETE FROM customers WHERE email = '', ''''] [PString ''jane@x.com''])
      \<in> set (snd (deleteCustomer database_down ''jane@x.com''))"
    by (simp add: deleteCustomer_def down)
  have d: "Sql (insert_invoice (Fin 4999))
      \<in> set (snd (createInvoice database_down server_clock no_state (invoice_form ''49.99'')))"
    using createInvoice_form [OF Number_49_99 pos, of database_down no_state]
    by (simp add: cents_49_99 down)
  have e: "Sql (update_invoice (Fin 4999) ''7'')
      \<in> set (snd (updateInvoice database_down ''7'' no_state (invoice_form ''49.99'')))"
    using updateInvoice_form [OF Number_49_99 pos, of database_down "''7''" no_state]
    by (simp add: cents_49_99 down)
  have f: "Sql (Query [''DELETE FROM invoices WHERE id = '', ''''] [PString ''7''])
      \<in> set (snd (deleteInvoice database_down ''7''))"
    by (simp add: deleteInvoice_def down)
  note t = database_error_returned [where sql = database_down and error = "''connection refused''"
      and prevState = no_state]
  have 1: "\<exists>m. createCustomer letters_and_spaces database_down no_state jane
              = (Return (Some \<lparr>errors = None, message = Some m\<rparr>), [Sql insert_jane])
          \<and> prefix ''Database Error'' m"
    using a down
      t [where q = insert_jane and nameRegex = letters_and_spaces and formData = jane,
         THEN conjunct1]
    by blast
  have 2: "\<exists>m. updateCustomer letters_and_spaces database_down ''42'' no_state jane
              = (Return (Some \<lparr>errors = None, message = Some m\<rparr>), [Sql update_jane])
          \<and> prefix ''Database Error'' m"
    using b down
      t [where q = update_jane and nameRegex = letters_and_spaces and formData = jane
          and id' = "''42''", THEN conjunct2, THEN conjunct1]
    by blast
  have 3: "\<exists>m. deleteCustomer database_down ''jane@x.com''
              = (Return (Some \<lparr>errors = None, message = Some m\<rparr>),
                 [Sql (Query [''DELETE FROM customers WHERE email = '', ''''] [PString ''jane@x.com''])])
          \<and> prefix ''Database Error'' m"
    using c down
      t [where q = "Query [''DELETE FROM customers WHERE email = '', ''''] [PString ''jane@x.com'']"
          and id' = "''jane@x.com''", THEN conjunct2, THEN conjunct2, THEN conjunct1]
    by blast
  have 4: "\<exists>m. createInvoice database_down server_clock no_state (invoice_form ''49.99'')
              = (Return (Some \<lparr>errors = None, message = Some m\<rparr>), [Sql (insert_invoice (Fin 4999))])
          \<and> prefix ''Database Error'' m"
    using d down
      t [where q = "insert_invoice (Fin 4999)" and now = server_clock
          and formData = "invoice_form ''49.99''",
         THEN conjunct2, THEN conjunct2, THEN conjunct2, THEN conjunct1]
    by blast
  have 5: "\<exists>m. updateInvoice database_down ''7'' no_state (invoice_form ''49.99'')
              = (Return (Some \<lparr>errors = None, message = Some m\<rparr>),
                 [Sql (update_invoice (Fin 4999) ''7'')])
          \<and> prefix ''Database Error'' m"
    using e down
      t [where q = "update_invoice (Fin 4999) ''7''" and id' = "''7''"
          and formData = "invoice_form ''49.99''",
         THEN conjunct2, THEN conjunct2, THEN conjunct2, THEN conjunct2, THEN conjunct1]
    by blast
  have 6: "\<exists>m. deleteInvoice database_down ''7''
              = (Return (Some \<lparr>errors = None, message = Some m\<rparr>),
                 [Sql (Query [''DELETE FROM invoices WHERE id = '', ''''] [PString ''7''])])
          \<and> prefix ''Database Error'' m"
    using f down
      t [where q = "Query [''DELETE FROM invoices WHERE id = '', ''''] [PString ''7'']"
          and id' = "''7''",
         THEN conjunct2, THEN conjunct2, THEN conjunct2, THEN conjunct2, THEN conjunct2]
    by blast
  from a down 1 2 3 4 5 6 show ?thesis
    by (intro conjI)
qed

subsection \<open>C3: the row an update handler modifies\<close>

text \<open>
  C3 says that both update handlers bind their argument \<open>id\<close> in the \<open>WHERE\<close> clause.
  \<open>updateInvoice\<close> does: the last value of its statement is \<open>id\<close>.
  \<open>updateCustomer\<close> never reads its argument \<open>id\<close>: its result is the same for every
  \<open>id\<close>, and for the submission \<open>jane\<close> the only statement it can execute binds the
  email of the form in \<open>WHERE id =\<close>.
\<close>

theorem updateCustomer_ignores_id:
  "updateCustomer nameRegex sql id' prevState formData
     = updateCustomer nameRegex sql id'' prevState formData
   \<and> (snd (updateCustomer nameRegex sql ''42'' prevState jane) = []
      \<or> hd (snd (updateCustomer nameRegex sql ''42'' prevState jane)) = Sql update_jane)"
proof -
  have "url_regex_test ''https://x.com''"
    by (simp add: url_eval)
  then show ?thesis
    by (auto simp: updateCustomer_def jane_get update_jane_def opt_param_def
        customerSchema_eval Let_def split: sum.splits)
qed

subsection \<open>C4: a submission that fails validation\<close>

text \<open>
  C4, as stated, gives the amount-scoped message of every invalid amount, non-numeric
  ones included, as \<open>Please enter an amount greater than $0.\<close>. An amount that is not a
  numeric literal coerces to NaN, which the number schema rejects as a type mismatch
  before the check \<open>gt(0)\<close> runs: the message is the validator's own.
\<close>

theorem createInvoice_non_numeric_amount:
  "createInvoice database_up server_clock no_state (invoice_form ''abc'')
     = (Return (Some \<lparr>errors = Some [(''amount'', [''Expected number, received nan''])],
                       message = Some ''Missing Fields. Failed to Create Invoice.''\<rparr>), [])
   \<and> reported_errors (createInvoice database_up server_clock no_state (invoice_form ''abc''))
        ''amount'' \<noteq> Some [''Please enter an amount greater than $0.'']"
proof -
  have "createInvoice database_up server_clock no_state (invoice_form ''abc'')
     = (Return (Some \<lparr>errors = Some [(''amount'', [''Expected number, received nan''])],
                       message = Some ''Missing Fields. Failed to Create Invoice.''\<rparr>), [])"
    by (simp add: createInvoice_def invoice_form_get InvoiceSchema_eval Number_abc
        fieldErrors_def push_error_def)
  then show ?thesis
    by (simp add: reported_errors_def)
qed

text \<open>
  C4, amended: for every create or update submission, a field that its schema rejects
  is reported with the non-empty list of that field's messages, under the field's name,
  and nothing is executed. A name that is empty or that the name pattern rejects is
  such a field. The amount-scoped message is \<open>Please enter an amount greater than $0.\<close>
  when the amount coerces to a number that is at most 0, and the validator's
  \<open>Expected number, received nan\<close> when it coerces to NaN.
\<close>

theorem invalid_field_reported:
  "(customerSchema_name nameRegex (FormData_get formData ''name'') = Inl ms \<longrightarrow>
      ms \<noteq> []
      \<and> reported_errors (createCustomer nameRegex sql prevState formData) ''name'' = Some ms
      \<and> snd (createCustomer nameRegex sql prevState formData) = []
      \<and> reported_errors (updateCustomer nameRegex sql id' prevState formData) ''name'' = Some ms
      \<and> snd (updateCustomer nameRegex sql id' prevState formData) = [])
   \<and> (customerSchema_email (FormData_get formData ''email'') = Inl ms \<longrightarrow>
      ms \<noteq> []
      \<and> reported_errors (createCustomer nameRegex sql prevState formData) ''email'' = Some ms
      \<and> snd (createCustomer nameRegex sql prevState formData) = []
      \<and> reported_errors (updateCustomer nameRegex sql id' prevState formData) ''email'' = Some ms
      \<and> snd (updateCustomer nameRegex sql id' prevState formData) = [])
   \<and> (customerSchema_url (FormData_get formData ''url'') = Inl ms \<longrightarrow>
      ms \<noteq> []
      \<and> reported_errors (createCustomer nameRegex sql prevState formData) ''url'' = Some ms
      \<and> snd (createCustomer nameRegex sql prevState formData) = []
      \<and> reported_errors (updateCustomer nameRegex sql id' prevState formData) ''url'' = Some ms
      \<and> snd (updateCustomer nameRegex sql id' prevState formData) = [])
   \<and> (InvoiceSchema_customerId (FormData_get formData ''customerId'') = Inl ms \<longrightarrow>
      ms \<noteq> []
      \<and> reported_errors (createInvoice sql now prevState formData) ''customerId'' = Some ms
      \<and> snd (createInvoice sql now prevState formData) = []
      \<and> reported_errors (updateInvoice sql id' prevState formData) ''customerId'' = Some ms
      \<and> snd (updateInvoice sql id' prevState formData) = [])
   \<and> (InvoiceSchema_amount (FormData_get formData ''amount'') = Inl ms \<longrightarrow>
      ms \<noteq> []
      \<and> reported_errors (createInvoice sql now prevState formData) ''amount'' = Some ms
      \<and> snd (createInvoice sql now prevState formData) = []
      \<and> reported_errors (updateInvoice sql id' prevState formData) ''amount'' = Some ms
      \<and> snd (updateInvoice sql id' prevState formData) = [])
   \<and> (InvoiceSchema_status (FormData_get formData ''status'') = Inl ms \<longrightarrow>
      ms \<noteq> []
      \<and> reported_errors (createInvoice sql now prevState formData) ''status'' = Some ms
      \<and> snd (createInvoice sql now prevState formData) = []
      \<and> reported_errors (updateInvoice sql id' prevState formData) ''status'' = Some ms
      \<and> snd (updateInvoice sql id' prevState formData) = [])
   \<and> (FormData_get formData ''name'' = Str s \<and> (s = [] \<or> \<not> nameRegex s) \<longrightarrow>
      (\<exists>ms'. customerSchema_name nameRegex (FormData_get formData ''name'') = Inl ms'))
   \<and> (Number (FormData_get formData ''amount'') \<noteq> NaN
        \<and> js_le (Number (FormData_get formData ''amount'')) (Fin 0) \<longrightarrow>
      InvoiceSchema_amount (FormData_get formData ''amount'')
        = Inl [''Please enter an amount greater than $0.''])
   \<and> (Number (FormData_get formData ''amount'') = NaN \<longrightarrow>
      InvoiceSchema_amount (FormData_get formData ''amount'')
        = Inl [''Expected number, received nan''])"
proof (intro conjI impI)
  assume h: "customerSchema_name nameRegex (FormData_get formData ''name'') = Inl ms"
  then show "ms \<noteq> []"
    by (rule field_messages_nonempty)
  from h show "reported_errors (createCustomer nameRegex sql prevState formData) ''name'' = Some ms"
    by (simp add: customer_field_reported)
  from h show "snd (createCustomer nameRegex sql prevState formData) = []"
    by (simp add: customer_field_reported)
  from h show "reported_errors (updateCustomer nameRegex sql id' prevState formData) ''name'' = Some ms"
    by (simp add: customer_field_reported)
  from h show "snd (updateCustomer nameRegex sql id' prevState formData) = []"
    by (simp add: customer_field_reported)
next
  assume h: "customerSchema_email (FormData_get formData ''email'') = Inl ms"
  then show "ms \<noteq> []"
    by (rule field_messages_nonempty)
  from h show "reported_errors (createCustomer nameRegex sql prevState formData) ''email'' = Some ms"
    by (simp add: customer_field_reported)
  from h show "snd (createCustomer nameRegex sql prevState formData) = []"
    by (simp add: customer_field_reported)
  from h show "reported_errors (updateCustomer nameRegex sql id' prevState formData) ''email'' = Some ms"
    by (simp add: customer_field_reported)
  from h show "snd (updateCustomer nameRegex sql id' prevState formData) = []"
    by (simp add: customer_field_reported)
next
  assume h: "customerSchema_url (FormData_get formData ''url'') = Inl ms"
  then show "ms \<noteq> []"
    by (rule field_messages_nonempty)
  from h show "reported_errors (createCustomer nameRegex sql prevState formData) ''url'' = Some ms"
    by (simp add: customer_field_reported)
  from h show "snd (createCustomer nameRegex sql prevState formData) = []"
    by (simp add: customer_field_reported)
  from h show "reported_errors (updateCustomer nameRegex sql id' prevState formData) ''url'' = Some ms"
    by (simp add: customer_field_reported)
  from h show "snd (updateCustomer nameRegex sql id' prevState formData) = []"
    by (simp add: customer_field_reported)
next
  assume h: "InvoiceSchema_customerId (FormData_get formData ''customerId'') = Inl ms"
  then show "ms \<noteq> []"
    by (rule field_messages_nonempty)
  from h show "reported_errors (createInvoice sql now prevState formData) ''customerId'' = Some ms"
    by (simp add: invoice_field_reported)
  from h show "snd (createInvoice sql now prevState formData) = []"
    by (simp add: invoice_field_reported)
  from h show "reported_errors (updateInvoice sql id' prevState formData) ''customerId'' = Some ms"
    by (simp add: invoice_field_reported(3,4) [where now = now])
  from h show "snd (updateInvoice sql id' prevState formData) = []"
    by (simp add: invoice_field_reported)
next
  assume h: "InvoiceSchema_amount (FormData_get formData ''amount'') = Inl ms"
  then show "ms \<noteq> []"
    by (rule field_messages_nonempty)
  from h show "reported_errors (createInvoice sql now prevState formData) ''amount'' = Some ms"
    by (simp add: invoice_field_reported)
  from h show "snd (createInvoice sql now prevState formData) = []"
    by (simp add: invoice_field_reported)
  from h show "reported_errors (updateInvoice sql id' prevState formData) ''amount'' = Some ms"
    by (simp add: invoice_field_reported(3,4) [where now = now])
  from h show "snd (updateInvoice sql id' prevState formData) = []"
    by (simp add: invoice_field_reported)
next
  assume h: "InvoiceSchema_status (FormData_get formData ''status'') = Inl ms"
  then show "ms \<noteq> []"
    by (rule field_messages_nonempty)
  from h show "reported_errors (createInvoice sql now prevState formData) ''status'' = Some ms"
    by (simp add: invoice_field_reported)
  from h show "snd (createInvoice sql now prevState formData) = []"
    by (simp add: invoice_field_reported)
  from h show "reported_errors (updateInvoice sql id' prevState formData) ''status'' = Some ms"
    by (simp add: invoice_field_reported(3,4) [where now = now])
  from h show "snd (updateInvoice sql id' prevState formData) = []"
    by (simp add: invoice_field_reported)
next
  assume "FormData_get formData ''name'' = Str s \<and> (s = [] \<or> \<not> nameRegex s)"
  then show "\<exists>ms'. customerSchema_name nameRegex (FormData_get formData ''name'') = Inl ms'"
    by (auto simp: customerSchema_name_def z_string_def Let_def)
next
  assume "Number (FormData_get formData ''amount'') \<noteq> NaN
        \<and> js_le (Number (FormData_get formData ''amount'')) (Fin 0)"
  then show "InvoiceSchema_amount (FormData_get formData ''amount'')
        = Inl [''Please enter an amount greater than $0.'']"
    by (simp add: InvoiceSchema_amount_def Let_def)
next
  assume "Number (FormData_get formData ''amount'') = NaN"
  then show "InvoiceSchema_amount (FormData_get formData ''amount'')
        = Inl [''Expected number, received nan'']"
    by (simp add: InvoiceSchema_amount_def Let_def)
qed

theorem invalid_field_reported_witness:
  "reported_errors (createCustomer letters_and_spaces database_up no_state blank_customer) ''name''
     = Some [''Name must contain at least 1 character.'']
   \<and> reported_errors (updateCustomer letters_and_spaces database_up ''42'' no_state blank_customer)
       ''email'' = Some [''Invalid Email'']
   \<and> reported_errors (createCustomer letters_and_spaces database_up no_state blank_customer) ''url''
     = Some [''Please enter a valid URL'']
   \<and> snd (createCustomer letters_and_spaces database_up no_state blank_customer) = []
   \<and> snd (updateCustomer letters_and_spaces database_up ''42'' no_state blank_customer) = []
   \<and> reported_errors (createInvoice database_up server_clock no_state blank_invoice) ''customerId''
     = Some [''Please select a customer.'']
   \<and> reported_errors (updateInvoice database_up ''7'' no_state blank_invoice) ''amount''
     = Some [''Please enter an amount greater than $0.'']
   \<and> reported_errors (createInvoice database_up server_clock no_state blank_invoice) ''status''
     = Some [''Invalid enum value. Expected '' @ joinValues [''pending'', ''paid'']
             @ '', received '' @ quote ''overdue'']
   \<and> snd (createInvoice database_up server_clock no_state blank_invoice) = []
   \<and> snd (updateInvoice database_up ''7'' no_state blank_invoice) = []
   \<and> (\<exists>ms. customerSchema_name letters_and_spaces (FormData_get blank_customer ''name'') = Inl ms)
   \<and> InvoiceSchema_amount (FormData_get (invoice_form ''abc'') ''amount'')
     = Inl [''Expected number, received nan'']"
proof -
  have get_c: "FormData_get blank_customer ''name'' = Str ''''"
    "FormData_get blank_customer ''email'' = File"
    "FormData_get blank_customer ''url'' = Str ''''"
    by (simp_all add: FormData_get_def blank_customer_def)
  have get_i: "FormData_get blank_invoice ''customerId'' = Null"
    "FormData_get blank_invoice ''amount'' = Str ''0''"
    "FormData_get blank_invoice ''status'' = Str ''overdue''"
    by (simp_all add: FormData_get_def blank_invoice_def)
  have n: "customerSchema_name letters_and_spaces (FormData_get blank_customer ''name'')
      = Inl [''Name must contain at least 1 character.'']"
    by (simp add: get_c customerSchema_name_def z_string_def letters_and_spaces_def)
  have e: "customerSchema_email (FormData_get blank_customer ''email'') = Inl [''Invalid Email'']"
    by (simp add: get_c customerSchema_eval)
  have "\<not> url_regex_test ''''"
    by (simp add: url_eval)
  then have u: "customerSchema_url (FormData_get blank_customer ''url'')
      = Inl [''Please enter a valid URL'']"
    by (simp add: get_c customerSchema_eval)
  have c: "InvoiceSchema_customerId (FormData_get blank_invoice ''customerId'')
      = Inl [''Please select a customer.'']"
    by (simp add: get_i InvoiceSchema_eval)
  have zero: "Number (FormData_get blank_invoice ''amount'') \<noteq> NaN
      \<and> js_le (Number (FormData_get blank_invoice ''amount'')) (Fin 0)"
    by (simp add: get_i Number_0 js_le_def)
  have s: "InvoiceSchema_status (FormData_get blank_invoice ''status'')
      = Inl [''Invalid enum value. Expected '' @ joinValues [''pending'', ''paid'']
             @ '', received '' @ quote ''overdue'']"
    by (simp add: get_i InvoiceSchema_status_def z_enum_def)
  have nan: "Number (FormData_get (invoice_form ''abc'') ''amount'') = NaN"
    by (simp add: invoice_form_get Number_abc)
  have empty: "FormData_get blank_customer ''name'' = Str '''' \<and> ('''' = [] \<or> \<not> letters_and_spaces '''')"
    by (simp add: get_c)
  note t = invalid_field_reported [where nameRegex = letters_and_spaces and sql = database_up
      and prevState = no_state and now = server_clock]
  note tc = t [where formData = blank_customer and id' = "''42''"]
  note ti = t [where formData = blank_invoice and id' = "''7''"]
  have a: "InvoiceSchema_amount (FormData_get blank_invoice ''amount'')
      = Inl [''Please enter an amount greater than $0.'']"
    using zero
      ti [THEN conjunct2, THEN conjunct2, THEN conjunct2, THEN conjunct2, THEN conjunct2,
          THEN conjunct2, THEN conjunct2, THEN conjunct1]
    by blast
  have 1: "reported_errors (createCustomer letters_and_spaces database_up no_state blank_customer)
      ''name'' = Some [''Name must contain at least 1 character.'']
    \<and> snd (createCustomer letters_and_spaces database_up no_state blank_customer) = []
    \<and> snd (updateCustomer letters_and_spaces database_up ''42'' no_state blank_customer) = []"
    using n tc [where ms = "[''Name must contain at least 1 character.'']", THEN conjunct1]
    by blast
  have 2: "reported_errors (updateCustomer letters_and_spaces database_up ''42'' no_state blank_customer)
       ''email'' = Some [''Invalid Email'']"
    using e tc [where ms = "[''Invalid Email'']", THEN conjunct2, THEN conjunct1]
    by blast
  have 3: "reported_errors (createCustomer letters_and_spaces database_up no_state blank_customer)
      ''url'' = Some [''Please enter a valid URL'']"
    using u tc [where ms = "[''Please enter a valid URL'']", THEN conjunct2, THEN conjunct2,
        THEN conjunct1]
    by blast
  have 4: "reported_errors (createInvoice database_up server_clock no_state blank_invoice)
      ''customerId'' = Some [''Please select a customer.'']
    \<and> snd (createInvoice database_up server_clock no_state blank_invoice) = []
    \<and> snd (updateInvoice database_up ''7'' no_state blank_invoice) = []"
    using c ti [where ms = "[''Please select a customer.'']", THEN conjunct2, THEN conjunct2,
        THEN conjunct2, THEN conjunct1]
    by blast
  have 5: "reported_errors (updateInvoice database_up ''7'' no_state blank_invoice) ''amount''
     = Some [''Please enter an amount greater than $0.'']"
    using a ti [where ms = "[''Please enter an amount greater than $0.'']", THEN conjunct2,
        THEN conjunct2, THEN conjunct2, THEN conjunct2, THEN conjunct1]
    by blast
  have 6: "reported_errors (createInvoice database_up server_clock no_state blank_invoice) ''status''
     = Some [''Invalid enum value. Expected '' @ joinValues [''pending'', ''paid'']
             @ '', received '' @ quote ''overdue'']"
    using s ti [where ms = "[''Invalid enum value. Expected '' @ joinValues [''pending'', ''paid'']
             @ '', received '' @ quote ''overdue'']", THEN conjunct2,
        THEN conjunct2, THEN conjunct2, THEN conjunct2, THEN conjunct2, THEN conjunct1]
    by blast
  have 7: "\<exists>ms. customerSchema_name letters_and_spaces (FormData_get blank_customer ''name'') = Inl ms"
    using empty
      tc [where s = "''''", THEN conjunct2, THEN conjunct2, THEN conjunct2, THEN conjunct2,
          THEN conjunct2, THEN conjunct2, THEN conjunct1]
    by blast
  have 8: "InvoiceSchema_amount (FormData_get (invoice_form ''abc'') ''amount'')
     = Inl [''Expected number, received nan'']"
    using nan
      t [where formData = "invoice_form ''abc''", THEN conjunct2, THEN conjunct2, THEN conjunct2,
         THEN conjunct2, THEN conjunct2, THEN conjunct2, THEN conjunct2, THEN conjunct2]
    by blast
  from 1 2 3 4 5 6 7 8 show ?thesis
    by blast
qed

subsection \<open>C5: the optional fields of a customer\<close>

text \<open>
  C5 says that a submission with a valid name and no \<open>email\<close> and \<open>url\<close> entries passes
  validation. The schema marks both fields \<open>optional()\<close>, and at the schema an
  \<open>undefined\<close> value passes; but the handler reads the fields with \<open>formData.get\<close>, which
  gives \<open>null\<close> for an absent entry, and \<open>null\<close> is rejected: the submission holding only
  a name is refused with an error for \<open>email\<close> and one for \<open>url\<close>, whatever the name
  pattern, and nothing is executed. A string given for \<open>email\<close> is accepted unchanged.
\<close>

theorem createCustomer_absent_optional_fields:
  "customerSchema_email Undefined = Inr None
   \<and> customerSchema_url Undefined = Inr None
   \<and> customerSchema_email (Str s) = Inr (Some s)
   \<and> FormData_get jane_name_only ''email'' = Null
   \<and> FormData_get jane_name_only ''url'' = Null
   \<and> reported_errors (createCustomer nameRegex sql prevState jane_name_only) ''email''
       = Some [''Invalid Email'']
   \<and> reported_errors (createCustomer nameRegex sql prevState jane_name_only) ''url''
       = Some [''Expected string, received null'']
   \<and> snd (createCustomer nameRegex sql prevState jane_name_only) = []"
proof -
  have g: "FormData_get jane_name_only ''email'' = Null" "FormData_get jane_name_only ''url'' = Null"
    by (simp_all add: FormData_get_def jane_name_only_def)
  have e: "customerSchema_email Null = Inl [''Invalid Email'']"
    by (simp add: customerSchema_eval)
  have u: "customerSchema_url Null = Inl [''Expected string, received null'']"
    by (simp add: customerSchema_eval)
  have bad: "isl (customerSchema_name nameRegex (FormData_get jane_name_only ''name''))
      \<or> isl (customerSchema_email (FormData_get jane_name_only ''email''))
      \<or> isl (customerSchema_url (FormData_get jane_name_only ''url''))"
    by (simp add: g e)
  have "customerSchema_email Undefined = Inr None" "customerSchema_url Undefined = Inr None"
    "customerSchema_email (Str s) = Inr (Some s)"
    by (simp_all add: customerSchema_eval)
  then show ?thesis
    using g by (simp add: customer_field_reported [OF bad] e u)
qed

subsection \<open>C6: the effects of a successful mutation\<close>

text \<open>
  C6: for every handler, when the statement it executes succeeds, the effects are that
  statement, then exactly one invalidation of the listing the record belongs to
  (\<open>/dashboard/customers\<close> or \<open>/dashboard/invoices\<close>) and, for the create and update
  handlers, the redirect to that listing, last, which ends the handler; the delete
  handlers return without a redirect.
\<close>

theorem successful_mutation_effects:
  "(Sql q \<in> set (snd (createCustomer nameRegex sql prevState formData)) \<and> sql q = Inr rows \<longrightarrow>
      createCustomer nameRegex sql prevState formData
        = (Throw (NEXT_REDIRECT ''/dashboard/customers''),
           [Sql q, RevalidatePath ''/dashboard/customers'', Redirect ''/dashboard/customers'']))
   \<and> (Sql q \<in> set (snd (updateCustomer nameRegex sql id' prevState formData)) \<and> sql q = Inr rows \<longrightarrow>
      updateCustomer nameRegex sql id' prevState formData
        = (Throw (NEXT_REDIRECT ''/dashboard/customers''),
           [Sql q, RevalidatePath ''/dashboard/customers'', Redirect ''/dashboard/customers'']))
   \<and> (Sql q \<in> set (snd (deleteCustomer sql id')) \<and> sql q = Inr rows \<longrightarrow>
      deleteCustomer sql id' = (Return None, [Sql q, RevalidatePath ''/dashboard/customers'']))
   \<and> (Sql q \<in> set (snd (createInvoice sql now prevState formData)) \<and> sql q = Inr rows \<longrightarrow>
      createInvoice sql now prevState formData
        = (Throw (NEXT_REDIRECT ''/dashboard/invoices''),
           [Sql q, RevalidatePath ''/dashboard/invoices'', Redirect ''/dashboard/invoices'']))
   \<and> (Sql q \<in> set (snd (updateInvoice sql id' prevState formData)) \<and> sql q = Inr rows \<longrightarrow>
      updateInvoice sql id' prevState formData
        = (Throw (NEXT_REDIRECT ''/dashboard/invoices''),
           [Sql q, RevalidatePath ''/dashboard/invoices'', Redirect ''/dashboard/invoices'']))
   \<and> (Sql q \<in> set (snd (deleteInvoice sql id')) \<and> sql q = Inr rows \<longrightarrow>
      deleteInvoice sql id' = (Return None, [Sql q, RevalidatePath ''/dashboard/invoices'']))"
proof (intro conjI impI)
  assume "Sql q \<in> set (snd (createCustomer nameRegex sql prevState formData)) \<and> sql q = Inr rows"
  then show "createCustomer nameRegex sql prevState formData
        = (Throw (NEXT_REDIRECT ''/dashboard/customers''),
           [Sql q, RevalidatePath ''/dashboard/customers'', Redirect ''/dashboard/customers''])"
    by (auto simp: createCustomer_def Let_def split: sum.splits)
next
  assume "Sql q \<in> set (snd (updateCustomer nameRegex sql id' prevState formData)) \<and> sql q = Inr rows"
  then show "updateCustomer nameRegex sql id' prevState formData
        = (Throw (NEXT_REDIRECT ''/dashboard/customers''),
           [Sql q, RevalidatePath ''/dashboard/customers'', Redirect ''/dashboard/customers''])"
    by (auto simp: updateCustomer_def Let_def split: sum.splits)
next
  assume "Sql q \<in> set (snd (deleteCustomer sql id')) \<and> sql q = Inr rows"
  then show "deleteCustomer sql id' = (Return None, [Sql q, RevalidatePath ''/dashboard/customers''])"
    by (auto simp: deleteCustomer_def Let_def split: sum.splits)
next
  assume "Sql q \<in> set (snd (createInvoice sql now prevState formData)) \<and> sql q = Inr rows"
  then show "createInvoice sql now prevState formData
        = (Throw (NEXT_REDIRECT ''/dashboard/invoices''),
           [Sql q, RevalidatePath ''/dashboard/invoices'', Redirect ''/dashboard/invoices''])"
    by (auto simp: createInvoice_def Let_def split: sum.splits)
next
  assume "Sql q \<in> set (snd (updateInvoice sql id' prevState formData)) \<and> sql q = Inr rows"
  then show "updateInvoice sql id' prevState formData
        = (Throw (NEXT_REDIRECT ''/dashboard/invoices''),
           [Sql q, RevalidatePath ''/dashboard/invoices'', Redirect ''/dashboard/invoices''])"
    by (auto simp: updateInvoice_def Let_def split: sum.splits)
next
  assume "Sql q \<in> set (snd (deleteInvoice sql id')) \<and> sql q = Inr rows"
  then show "deleteInvoice sql id' = (Return None, [Sql q, RevalidatePath ''/dashboard/invoices''])"
    by (auto simp: deleteInvoice_def Let_def split: sum.splits)
qed

theorem successful_mutation_effects_witness:
  "(Sql insert_jane \<in> set (snd (createCustomer letters_and_spaces database_up no_state jane))
      \<and> database_up insert_jane = Inr [])
   \<and> createCustomer letters_and_spaces database_up no_state jane
       = (Throw (NEXT_REDIRECT ''/dashboard/customers''),
          [Sql insert_jane, RevalidatePath ''/dashboard/customers'',
           Redirect ''/dashboard/customers''])
   \<and> updateCustomer letters_and_spaces database_up ''42'' no_state jane
       = (Throw (NEXT_REDIRECT ''/dashboard/customers''),
          [Sql update_jane, RevalidatePath ''/dashboard/customers'',
           Redirect ''/dashboard/customers''])
   \<and> deleteCustomer database_up ''jane@x.com''
       = (Return None,
          [Sql (Query [''DELETE FROM customers WHERE email = '', ''''] [PString ''jane@x.com'']),
           RevalidatePath ''/dashboard/customers''])
   \<and> createInvoice database_up server_clock no_state (invoice_form ''49.99'')
       = (Throw (NEXT_REDIRECT ''/dashboard/invoices''),
          [Sql (insert_invoice (Fin 4999)), RevalidatePath ''/dashboard/invoices'',
           Redirect ''/dashboard/invoices''])
   \<and> updateInvoice database_up ''7'' no_state (invoice_form ''49.99'')
       = (Throw (NEXT_REDIRECT ''/dashboard/invoices''),
          [Sql (update_invoice (Fin 4999) ''7''), RevalidatePath ''/dashboard/invoices'',
           Redirect ''/dashboard/invoices''])
   \<and> deleteInvoice database_up ''7''
       = (Return None,
          [Sql (Query [''DELETE FROM invoices WHERE id = '', ''''] [PString ''7'']),
           RevalidatePath ''/dashboard/invoices''])"
proof -
  have up: "\<And>q. database_up q = Inr []"
    by (simp add: database_up_def)
  have pos: "(0::rat) < 7035467042882847 / 140737488355328"
    by simp
  have a: "Sql insert_jane \<in> set (snd (createCustomer letters_and_spaces database_up no_state jane))"
    by (simp add: createCustomer_jane up)
  have b: "Sql update_jane
      \<in> set (snd (updateCustomer letters_and_spaces database_up ''42'' no_state jane))"
    by (simp add: updateCustomer_jane up)
  have c: "Sql (Query [''DELETE FROM customers WHERE email = '', ''''] [PString ''jane@x.com''])
      \<in> set (snd (deleteCustomer database_up ''jane@x.com''))"
    by (simp add: deleteCustomer_def up)
  have d: "Sql (insert_invoice (Fin 4999))
      \<in> set (snd (createInvoice database_up server_clock no_state (invoice_form ''49.99'')))"
    using createInvoice_form [OF Number_49_99 pos, of database_up no_state]
    by (simp add: cents_49_99 up)
  have e: "Sql (update_invoice (Fin 4999) ''7'')
      \<in> set (snd (updateInvoice database_up ''7'' no_state (invoice_form ''49.99'')))"
    using updateInvoice_form [OF Number_49_99 pos, of database_up "''7''" no_state]
    by (simp add: cents_49_99 up)
  have f: "Sql (Query [''DELETE FROM invoices WHERE id = '', ''''] [PString ''7''])
      \<in> set (snd (deleteInvoice database_up ''7''))"
    by (simp add: deleteInvoice_def up)
  note t = successful_mutation_effects [where sql = database_up and rows = "[]"
      and prevState = no_state]
  have 1: "createCustomer letters_and_spaces database_up no_state jane
       = (Throw (NEXT_REDIRECT ''/dashboard/customers''),
          [Sql insert_jane, RevalidatePath ''/dashboard/customers'',
           Redirect ''/dashboard/customers''])"
    using a up
      t [where q = insert_jane and nameRegex = letters_and_spaces and formData = jane,
         THEN conjunct1]
    by blast
  have 2: "updateCustomer letters_and_spaces database_up ''42'' no_state jane
       = (Throw (NEXT_REDIRECT ''/dashboard/customers''),
          [Sql update_jane, RevalidatePath ''/dashboard/customers'',
           Redirect ''/dashboard/customers''])"
    using b up
      t [where q = update_jane and nameRegex = letters_and_spaces and formData = jane
          and id' = "''42''", THEN conjunct2, THEN conjunct1]
    by blast
  have 3: "deleteCustomer database_up ''jane@x.com''
       = (Return None,
          [Sql (Query [''DELETE FROM customers WHERE email = '', ''''] [PString ''jane@x.com'']),
           RevalidatePath ''/dashboard/customers''])"
    using c up
      t [where q = "Query [''DELETE FROM customers WHERE email = '', ''''] [PString ''jane@x.com'']"
          and id' = "''jane@x.com''", THEN conjunct2, THEN conjunct2, THEN conjunct1]
    by blast
  have 4: "createInvoice database_up server_clock no_state (invoice_form ''49.99'')
       = (Throw (NEXT_REDIRECT ''/dashboard/invoices''),
          [Sql (insert_invoice (Fin 4999)), RevalidatePath ''/dashboard/invoices'',
           Redirect ''/dashboard/invoices''])"
    using d up
      t [where q = "insert_invoice (Fin 4999)" and now = server_clock
          and formData = "invoice_form ''49.99''",
         THEN conjunct2, THEN conjunct2, THEN conjunct2, THEN conjunct1]
    by blast
  have 5: "updateInvoice database_up ''7'' no_state (invoice_form ''49.99'')
       = (Throw (NEXT_REDIRECT ''/dashboard/invoices''),
          [Sql (update_invoice (Fin 4999) ''7''), RevalidatePath ''/dashboard/invoices'',
           Redirect ''/dashboard/invoices''])"
    using e up
      t [where q = "update_invoice (Fin 4999) ''7''" and id' = "''7''"
          and formData = "invoice_form ''49.99''",
         THEN conjunct2, THEN conjunct2, THEN conjunct2, THEN conjunct2, THEN conjunct1]
    by blast
  have 6: "deleteInvoice database_up ''7''
       = (Return None,
          [Sql (Query [''DELETE FROM invoices WHERE id = '', ''''] [PString ''7'']),
           RevalidatePath ''/dashboard/invoices''])"
    using f up
      t [where q = "Query [''DELETE FROM invoices WHERE id = '', ''''] [PString ''7'']"
          and id' = "''7''",
         THEN conjunct2, THEN conjunct2, THEN conjunct2, THEN conjunct2, THEN conjunct2]
    by blast
  from a up 1 2 3 4 5 6 show ?thesis
    by (intro conjI)
qed

subsection \<open>C7: the date of a new invoice\<close>

text \<open>
  C7, as stated, has the persisted date equal the server's current calendar date, written
  \<open>YYYY-MM-DD\<close>. The handler takes the part of \<open>new Date().toISOString()\<close> before \<open>T\<close>,
  which is the date in UTC: on a server in the time zone \<open>Pacific/Kiritimati\<close>, at 00:30
  on 8 May 2024, the date bound is \<open>2024-05-07\<close>. And \<open>toISOString\<close> writes a year above
  9999 with a sign and six digits: on 1 January 10000 the date bound is
  \<open>+010000-01-01\<close>, which is not of the form \<open>YYYY-MM-DD\<close>.
\<close>

theorem createInvoice_date_is_utc:
  "createInvoice database_up kiritimati_clock no_state (invoice_form ''49.99'')
     = (Throw (NEXT_REDIRECT ''/dashboard/invoices''),
        [Sql (insert_invoice_dated ''2024-05-07''), RevalidatePath ''/dashboard/invoices'',
         Redirect ''/dashboard/invoices''])
   \<and> read_iso_date ''2024-05-07'' = Some (2024, 5, 7)
   \<and> server_calendar_date kiritimati_clock = (2024, 5, 8)
   \<and> createInvoice database_up year_10000_clock no_state (invoice_form ''49.99'')
     = (Throw (NEXT_REDIRECT ''/dashboard/invoices''),
        [Sql (insert_invoice_dated ''+010000-01-01''), RevalidatePath ''/dashboard/invoices'',
         Redirect ''/dashboard/invoices''])
   \<and> read_iso_date ''+010000-01-01'' = None"
proof -
  have k: "split_first CHR ''T'' (toISOString kiritimati_clock) = ''2024-05-07''"
    by (simp add: split_first_def toISOString_def kiritimati_clock_def padStart_def
        decimal_small decimal_big)
  have y: "split_first CHR ''T'' (toISOString year_10000_clock) = ''+010000-01-01''"
    by (simp add: split_first_def toISOString_def year_10000_clock_def padStart_def
        decimal_small decimal_big)
  have "read_iso_date ''2024-05-07'' = Some (2024, 5, 7)"
    by (simp add: read_iso_date_def isDigit_def digitValue_def digitsValue_def)
  moreover have "server_calendar_date kiritimati_clock = (2024, 5, 8)"
    by (simp add: server_calendar_date_def kiritimati_clock_def)
  moreover have "read_iso_date ''+010000-01-01'' = None"
    by (simp add: read_iso_date_def)
  ultimately show ?thesis
    by (simp add: createInvoice_dated [OF k] createInvoice_dated [OF y])
qed

text \<open>
  C7, amended: whenever \<open>createInvoice\<close> executes its statement, the date it binds is the
  part of the clock's \<open>toISOString()\<close> before \<open>T\<close>, a function of the clock alone: no
  entry of the form data, an entry named \<open>date\<close> included, has a part in it. When the UTC
  year of the clock is between 0 and 9999, that text has the form \<open>YYYY-MM-DD\<close> and stands
  for the calendar date of the clock in UTC, which need not be the date in the server's
  own time zone.
\<close>

theorem createInvoice_date_from_clock:
  "(Sql q \<in> set (snd (createInvoice sql now prevState formData)) \<longrightarrow>
      (\<exists>c a s. q = Query [''INSERT INTO invoices (customer_id, amount, status, date) VALUES ('',
                           '', '', '', '', '', '', '')'']
                    [PString c, PNumber a, PString s,
                     PString (split_first CHR ''T'' (toISOString now))]))
   \<and> (0 \<le> UTCFullYear now \<and> UTCFullYear now \<le> 9999 \<and> UTCMonth now < 12 \<and> UTCDate now \<le> 31
      \<longrightarrow> read_iso_date (split_first CHR ''T'' (toISOString now)) = Some (utc_calendar_date now))"
  by (auto simp: createInvoice_def Let_def read_iso_date_toISOString split: sum.splits)

theorem createInvoice_date_from_clock_witness:
  "(Sql (insert_invoice (Fin 4999))
      \<in> set (snd (createInvoice database_up server_clock no_state (invoice_form ''49.99'')))
    \<and> 0 \<le> UTCFullYear server_clock \<and> UTCFullYear server_clock \<le> 9999
    \<and> UTCMonth server_clock < 12 \<and> UTCDate server_clock \<le> 31)
   \<and> FormData_get (invoice_form ''49.99'') ''date'' = Str ''1999-12-31''
   \<and> split_first CHR ''T'' (toISOString server_clock) = ''2024-05-07''
   \<and> read_iso_date ''2024-05-07'' = Some (utc_calendar_date server_clock)
   \<and> utc_calendar_date server_clock = (2024, 5, 7)"
proof -
  have pos: "(0::rat) < 7035467042882847 / 140737488355328"
    by simp
  have a: "Sql (insert_invoice (Fin 4999))
      \<in> set (snd (createInvoice database_up server_clock no_state (invoice_form ''49.99'')))"
    using createInvoice_form [OF Number_49_99 pos, of database_up no_state]
    by (simp add: cents_49_99 database_up_def)
  have b: "0 \<le> UTCFullYear server_clock \<and> UTCFullYear server_clock \<le> 9999
    \<and> UTCMonth server_clock < 12 \<and> UTCDate server_clock \<le> 31"
    by (simp add: server_clock_def)
  note t = createInvoice_date_from_clock
      [of "insert_invoice (Fin 4999)" database_up server_clock no_state "invoice_form ''49.99''"]
  have "\<exists>c a s. insert_invoice (Fin 4999)
        = Query [''INSERT INTO invoices (customer_id, amount, status, date) VALUES ('',
                 '', '', '', '', '', '', '')'']
            [PString c, PNumber a, PString s,
             PString (split_first CHR ''T'' (toISOString server_clock))]"
    using a t [THEN conjunct1] by blast
  then have c: "split_first CHR ''T'' (toISOString server_clock) = ''2024-05-07''"
    by (auto simp: insert_invoice_def)
  have "read_iso_date (split_first CHR ''T'' (toISOString server_clock))
      = Some (utc_calendar_date server_clock)"
    using b t [THEN conjunct2] by blast
  then have d: "read_iso_date ''2024-05-07'' = Some (utc_calendar_date server_clock)"
    by (simp only: c)
  have e: "FormData_get (invoice_form ''49.99'') ''date'' = Str ''1999-12-31''"
    by (simp add: FormData_get_def invoice_form_def)
  have f: "utc_calendar_date server_clock = (2024, 5, 7)"
    by (simp add: utc_calendar_date_def server_clock_def)
  from a b c d e f show ?thesis
    by blast
qed

subsection \<open>C8: the messages of a failed sign-in\<close>

text \<open>
  C8: when \<open>signIn\<close> fails with an \<open>AuthError\<close> of type \<open>CredentialsSignin\<close>, \<open>authenticate\<close>
  returns \<open>Invalid credentials.\<close>; when it fails with an \<open>AuthError\<close> of any other type,
  \<open>authenticate\<close> returns \<open>Something went wrong.\<close>; when it fails with anything else, that
  value is thrown again to the caller.
\<close>

theorem authenticate_error_mapping:
  "(signIn ''credentials'' formData = Some (AuthError ''CredentialsSignin'')
      \<longrightarrow> authenticate signIn prevState formData = Return (Some ''Invalid credentials.''))
   \<and> (\<forall>t. signIn ''credentials'' formData = Some (AuthError t) \<and> t \<noteq> ''CredentialsSignin''
      \<longrightarrow> authenticate signIn prevState formData = Return (Some ''Something went wrong.''))
   \<and> (\<forall>e. signIn ''credentials'' formData = Some (Other e)
      \<longrightarrow> authenticate signIn prevState formData = Throw (Other e))"
  by (simp add: authenticate_def)

theorem authenticate_error_mapping_witness:
  "wrong_password ''credentials'' (login_form ''letmein'') = Some (AuthError ''CredentialsSignin'')
   \<and> authenticate wrong_password None (login_form ''letmein'')
       = Return (Some ''Invalid credentials.'')
   \<and> provider_down ''credentials'' (login_form ''123456'') = Some (AuthError ''CallbackRouteError'')
   \<and> authenticate provider_down None (login_form ''123456'')
       = Return (Some ''Something went wrong.'')
   \<and> redirecting ''credentials'' (login_form ''123456'') = Some (Other ())
   \<and> authenticate redirecting None (login_form ''123456'') = Throw (Other ())"
proof -
  have a: "wrong_password ''credentials'' (login_form ''letmein'')
      = Some (AuthError ''CredentialsSignin'')"
    by (simp add: wrong_password_def login_form_def FormData_get_def)
  have b: "provider_down ''credentials'' (login_form ''123456'')
      = Some (AuthError ''CallbackRouteError'')"
    by (simp add: provider_down_def)
  have b': "''CallbackRouteError'' \<noteq> ''CredentialsSignin''"
    by simp
  have c: "redirecting ''credentials'' (login_form ''123456'') = Some (Other ())"
    by (simp add: redirecting_def)
  from a b b' c show ?thesis
    using authenticate_error_mapping [of wrong_password "login_form ''letmein''" None]
      authenticate_error_mapping [of provider_down "login_form ''123456''" None]
      authenticate_error_mapping [of redirecting "login_form ''123456''" None]
    by blast
qed

subsection \<open>C9: the diagnostic endpoint\<close>

text \<open>
  C9, as stated, has the handler answer, on any failure during the read, with status 500
  and a body that carries the error. Two runs show otherwise. The \<open>catch\<close> block awaits
  \<open>ROLLBACK\<close> before it builds the response: when the read fails and the \<open>ROLLBACK\<close> fails
  too (a connection that was lost), the handler throws the second error and returns no
  response. And the body is the text \<open>JSON.stringify({error})\<close>, which holds the
  enumerable own properties of the error only: the message of an \<open>Error\<close> instance is not
  one of them, and for \<open>new Error(message)\<close> the body is an \<open>error\<close> property with the
  empty object.
\<close>

theorem GET_rollback_fails:
  "GET connection_lost
     = (Throw (connection_error ''Client has encountered a connection error''),
        [Sql (Query [''BEGIN''] []), Sql (Query [''SELECT * FROM revenue''] []),
         Sql (Query [''ROLLBACK''] [])])
   \<and> GET begin_fails
     = (Return \<lparr>body = ''{'' @ dquote ''error'' @ '':{}}'', httpStatus = 500\<rparr>,
        [Sql (Query [''BEGIN''] []), Sql (Query [''ROLLBACK''] [])])
   \<and> begin_fails (Query [''BEGIN''] []) = Inl (ErrorObject ''too many connections'' [])"
  by (simp add: GET_def GET_catch_def connection_lost_def begin_fails_def connection_error_def
      Response_json_def JSON_stringify_def SerializeRejection_def SerializeJSONObject_def
      QuoteJSONString_def QuoteJSONChar_def dquote_def)

text \<open>
  C9, amended: the handler executes \<open>BEGIN\<close>, the read of the whole \<open>revenue\<close> table and
  \<open>COMMIT\<close>, logs the rows, and returns the text of \<open>{message: "success"}\<close> with status
  200, without the rows. When \<open>BEGIN\<close>, the read or \<open>COMMIT\<close> fails, it executes
  \<open>ROLLBACK\<close> and, provided the \<open>ROLLBACK\<close> itself succeeds, returns a response with status
  500 whose body is the text \<open>JSON.stringify({error})\<close>: for an \<open>Error\<close> instance that text
  holds the enumerable own properties of the error and is the same whatever its message.
\<close>

theorem GET_transaction:
  "(client_sql (Query [''BEGIN''] []) = Inr r0
      \<and> client_sql (Query [''SELECT * FROM revenue''] []) = Inr rows
      \<and> client_sql (Query [''COMMIT''] []) = Inr r1
    \<longrightarrow> GET client_sql
        = (Return \<lparr>body = ''{'' @ dquote ''message'' @ '':'' @ dquote ''success'' @ ''}'',
                    httpStatus = 200\<rparr>,
           [Sql (Query [''BEGIN''] []), Sql (Query [''SELECT * FROM revenue''] [])]
           @ map ConsoleLog rows @ [Sql (Query [''COMMIT''] [])]))
   \<and> (client_sql (Query [''BEGIN''] []) = Inr r0
      \<and> client_sql (Query [''SELECT * FROM revenue''] []) = Inl error
      \<and> client_sql (Query [''ROLLBACK''] []) = Inr r2
    \<longrightarrow> GET client_sql
        = (Return \<lparr>body = JSON_stringify (JsonError error), httpStatus = 500\<rparr>,
           [Sql (Query [''BEGIN''] []), Sql (Query [''SELECT * FROM revenue''] []),
            Sql (Query [''ROLLBACK''] [])]))
   \<and> (client_sql (Query [''BEGIN''] []) = Inl error
      \<and> client_sql (Query [''ROLLBACK''] []) = Inr r2
    \<longrightarrow> GET client_sql
        = (Return \<lparr>body = JSON_stringify (JsonError error), httpStatus = 500\<rparr>,
           [Sql (Query [''BEGIN''] []), Sql (Query [''ROLLBACK''] [])]))
   \<and> (client_sql (Query [''BEGIN''] []) = Inr r0
      \<and> client_sql (Query [''SELECT * FROM revenue''] []) = Inr rows
      \<and> client_sql (Query [''COMMIT''] []) = Inl error
      \<and> client_sql (Query [''ROLLBACK''] []) = Inr r2
    \<longrightarrow> GET client_sql
        = (Return \<lparr>body = JSON_stringify (JsonError error), httpStatus = 500\<rparr>,
           [Sql (Query [''BEGIN''] []), Sql (Query [''SELECT * FROM revenue''] [])]
           @ map ConsoleLog rows @ [Sql (Query [''COMMIT''] []), Sql (Query [''ROLLBACK''] [])]))
   \<and> JSON_stringify (JsonError (ErrorObject msg props))
       = ''{'' @ dquote ''error'' @ '':''
         @ SerializeJSONObject (map (\<lambda>(k, v). (k, SerializeJSONProperty v)) props) @ ''}''
   \<and> JSON_stringify (JsonError (ErrorObject msg props))
       = JSON_stringify (JsonError (ErrorObject msg' props))"
proof -
  have ok: "JSON_stringify (JsonMessage ''success'')
      = ''{'' @ dquote ''message'' @ '':'' @ dquote ''success'' @ ''}''"
    by (simp add: JSON_stringify_def SerializeJSONObject_def QuoteJSONString_def
        QuoteJSONChar_def dquote_def)
  have err: "JSON_stringify (JsonError (ErrorObject m props))
       = ''{'' @ dquote ''error'' @ '':''
         @ SerializeJSONObject (map (\<lambda>(k, v). (k, SerializeJSONProperty v)) props) @ ''}''" for m
    by (simp add: JSON_stringify_def SerializeRejection_def SerializeJSONObject_def [of "[_]"]
        QuoteJSONString_def QuoteJSONChar_def dquote_def)
  show ?thesis
    by (simp add: GET_def GET_catch_def Response_json_def ok err)
qed

theorem GET_transaction_witness:
  "GET revenue_rows
     = (Return \<lparr>body = ''{'' @ dquote ''message'' @ '':'' @ dquote ''success'' @ ''}'',
                 httpStatus = 200\<rparr>,
        [Sql (Query [''BEGIN''] []), Sql (Query [''SELECT * FROM revenue''] []),
         ConsoleLog ''Jan 2000'', ConsoleLog ''Feb 1800'', Sql (Query [''COMMIT''] [])])
   \<and> GET select_fails
     = (Return \<lparr>body = ''{'' @ dquote ''error'' @ '':{'' @ dquote ''length'' @ '':106,''
                        @ dquote ''name'' @ '':'' @ dquote ''error'' @ '',''
                        @ dquote ''severity'' @ '':'' @ dquote ''ERROR'' @ '',''
                        @ dquote ''code'' @ '':'' @ dquote ''42P01'' @ '',''
                        @ dquote ''routine'' @ '':'' @ dquote ''parserOpenTable'' @ ''}}'',
                 httpStatus = 500\<rparr>,
        [Sql (Query [''BEGIN''] []), Sql (Query [''SELECT * FROM revenue''] []),
         Sql (Query [''ROLLBACK''] [])])
   \<and> GET begin_fails
     = (Return \<lparr>body = ''{'' @ dquote ''error'' @ '':{}}'', httpStatus = 500\<rparr>,
        [Sql (Query [''BEGIN''] []), Sql (Query [''ROLLBACK''] [])])
   \<and> GET commit_fails
     = (Return \<lparr>body = ''{'' @ dquote ''error'' @ '':'' @ dquote ''commit failed'' @ ''}'',
                 httpStatus = 500\<rparr>,
        [Sql (Query [''BEGIN''] []), Sql (Query [''SELECT * FROM revenue''] []),
         ConsoleLog ''Jan 2000'', Sql (Query [''COMMIT''] []), Sql (Query [''ROLLBACK''] [])])
   \<and> JSON_stringify (JsonError undefined_table)
     = JSON_stringify (JsonError (ErrorObject ''permission denied for table revenue''
         [(''length'', JInt 106), (''name'', JString ''error''), (''severity'', JString ''ERROR''),
          (''code'', JString ''42P01''), (''detail'', JUndefined),
          (''routine'', JString ''parserOpenTable'')]))"
proof -
  have a: "revenue_rows (Query [''BEGIN''] []) = Inr []
      \<and> revenue_rows (Query [''SELECT * FROM revenue''] []) = Inr [''Jan 2000'', ''Feb 1800'']
      \<and> revenue_rows (Query [''COMMIT''] []) = Inr []"
    by (simp add: revenue_rows_def)
  have b: "select_fails (Query [''BEGIN''] []) = Inr []
      \<and> select_fails (Query [''SELECT * FROM revenue''] []) = Inl undefined_table
      \<and> select_fails (Query [''ROLLBACK''] []) = Inr []"
    by (simp add: select_fails_def)
  have c: "begin_fails (Query [''BEGIN''] []) = Inl (connection_error ''too many connections'')
      \<and> begin_fails (Query [''ROLLBACK''] []) = Inr []"
    by (simp add: begin_fails_def)
  have d: "commit_fails (Query [''BEGIN''] []) = Inr []
      \<and> commit_fails (Query [''SELECT * FROM revenue''] []) = Inr [''Jan 2000'']
      \<and> commit_fails (Query [''COMMIT''] []) = Inl (Primitive (JString ''commit failed''))
      \<and> commit_fails (Query [''ROLLBACK''] []) = Inr []"
    by (simp add: commit_fails_def)
  have s1: "JSON_stringify (JsonError undefined_table)
      = ''{'' @ dquote ''error'' @ '':{'' @ dquote ''length'' @ '':106,''
        @ dquote ''name'' @ '':'' @ dquote ''error'' @ '',''
        @ dquote ''severity'' @ '':'' @ dquote ''ERROR'' @ '',''
        @ dquote ''code'' @ '':'' @ dquote ''42P01'' @ '',''
        @ dquote ''routine'' @ '':'' @ dquote ''parserOpenTable'' @ ''}}''"
    by (simp add: undefined_table_def JSON_stringify_def SerializeRejection_def
        SerializeJSONObject_def SerializeJSONProperty_def QuoteJSONString_def QuoteJSONChar_def
        dquote_def decimal_small decimal_big)
  have s2: "JSON_stringify (JsonError (connection_error ''too many connections''))
      = ''{'' @ dquote ''error'' @ '':{}}''"
    by (simp add: connection_error_def JSON_stringify_def SerializeRejection_def
        SerializeJSONObject_def QuoteJSONString_def QuoteJSONChar_def dquote_def)
  have s3: "JSON_stringify (JsonError (Primitive (JString ''commit failed'')))
      = ''{'' @ dquote ''error'' @ '':'' @ dquote ''commit failed'' @ ''}''"
    by (simp add: JSON_stringify_def SerializeRejection_def SerializeJSONObject_def
        SerializeJSONProperty_def QuoteJSONString_def QuoteJSONChar_def dquote_def)
  have 1: "GET revenue_rows
     = (Return \<lparr>body = ''{'' @ dquote ''message'' @ '':'' @ dquote ''success'' @ ''}'',
                 httpStatus = 200\<rparr>,
        [Sql (Query [''BEGIN''] []), Sql (Query [''SELECT * FROM revenue''] [])]
         @ map ConsoleLog [''Jan 2000'', ''Feb 1800''] @ [Sql (Query [''COMMIT''] [])])"
    using a
      GET_transaction [of revenue_rows "[]" "[''Jan 2000'', ''Feb 1800'']" "[]", THEN conjunct1]
    by blast
  have 2: "GET select_fails
     = (Return \<lparr>body = JSON_stringify (JsonError undefined_table), httpStatus = 500\<rparr>,
        [Sql (Query [''BEGIN''] []), Sql (Query [''SELECT * FROM revenue''] []),
         Sql (Query [''ROLLBACK''] [])])"
    using b
      GET_transaction [of select_fails "[]" _ _ undefined_table "[]", THEN conjunct2,
        THEN conjunct1]
    by blast
  have 3: "GET begin_fails
     = (Return \<lparr>body = JSON_stringify (JsonError (connection_error ''too many connections'')),
                 httpStatus = 500\<rparr>,
        [Sql (Query [''BEGIN''] []), Sql (Query [''ROLLBACK''] [])])"
    using c
      GET_transaction [of begin_fails _ _ _ "connection_error ''too many connections''" "[]",
        THEN conjunct2, THEN conjunct2, THEN conjunct1]
    by blast
  have 4: "GET commit_fails
     = (Return \<lparr>body = JSON_stringify (JsonError (Primitive (JString ''commit failed''))),
                 httpStatus = 500\<rparr>,
        [Sql (Query [''BEGIN''] []), Sql (Query [''SELECT * FROM revenue''] [])]
         @ map ConsoleLog [''Jan 2000''] @ [Sql (Query [''COMMIT''] []), Sql (Query [''ROLLBACK''] [])])"
    using d
      GET_transaction [of commit_fails "[]" "[''Jan 2000'']" _
        "Primitive (JString ''commit failed'')" "[]",
        THEN conjunct2, THEN conjunct2, THEN conjunct2, THEN conjunct1]
    by blast
  have 5: "JSON_stringify (JsonError undefined_table)
     = JSON_stringify (JsonError (ErrorObject ''permission denied for table revenue''
         [(''length'', JInt 106), (''name'', JString ''error''), (''severity'', JString ''ERROR''),
          (''code'', JString ''42P01''), (''detail'', JUndefined),
          (''routine'', JString ''parserOpenTable'')]))"
    unfolding undefined_table_def
    by (rule GET_transaction [THEN conjunct2, THEN conjunct2, THEN conjunct2, THEN conjunct2,
          THEN conjunct2])
  from 1 2 3 4 5 show ?thesis
    by (simp add: s1 s2 s3)
qed

subsection \<open>C10: the previous state of the sign-in form\<close>

text \<open>
  C10: the result of \<open>authenticate\<close> is the same for every \<open>prevState\<close>, the form data
  and the outcome of \<open>signIn\<close> being the same; and when \<open>signIn\<close> succeeds,
  \<open>authenticate\<close> returns \<open>undefined\<close>, no message.
\<close>

theorem authenticate_ignores_prevState:
  "authenticate signIn prevState formData = authenticate signIn prevState' formData
   \<and> (signIn ''credentials'' formData = None
        \<longrightarrow> authenticate signIn prevState formData = Return None)"
  by (simp add: authenticate_def)

theorem authenticate_ignores_prevState_witness:
  "wrong_password ''credentials'' (login_form ''123456'') = None
   \<and> authenticate wrong_password None (login_form ''123456'')
       = authenticate wrong_password (Some ''Invalid credentials.'') (login_form ''123456'')
   \<and> authenticate wrong_password None (login_form ''123456'') = Return None"
proof -
  have a: "wrong_password ''credentials'' (login_form ''123456'') = None"
    by (simp add: wrong_password_def login_form_def FormData_get_def)
  from a show ?thesis
    using authenticate_ignores_prevState
      [of wrong_password None "login_form ''123456''" "Some ''Invalid credentials.''"]
    by blast
qed

end
